theory Spec2Isabelle
  imports Complex_Main "HOL-Library.AList"
begin

section \<open>Python values, errors and outcomes\<close>

text \<open>
  The development embeds the control code of \<^verbatim>\<open>src/msg3d/main.py\<close> (class
  \<^verbatim>\<open>Processor\<close> and \<^verbatim>\<open>main\<close>). Python integers are \<^typ>\<open>int\<close>; Python
  and numpy floats are idealised as \<^typ>\<open>real\<close> (rounding is not modelled). An
  exception is a value: a call either returns the updated object or raises with the
  object as it was mutated up to the raise.
\<close>

datatype error =
  ValueError | AssertionError | ZeroDivisionError | IndexError | AttributeError | RuntimeError

datatype 'a outcome = Returned 'a | Raised error 'a

fun state_of :: "'a outcome \<Rightarrow> 'a" where
  "state_of (Returned s) = s"
| "state_of (Raised e s) = s"

fun raised :: "'a outcome \<Rightarrow> error option" where
  "raised (Returned s) = None"
| "raised (Raised e s) = Some e"

fun and_then :: "'a outcome \<Rightarrow> ('a \<Rightarrow> 'a outcome) \<Rightarrow> 'a outcome" where
  "and_then (Returned s) f = f s"
| "and_then (Raised e s) f = Raised e s"

text \<open>\<^verbatim>\<open>xs[l:r]\<close> for a list and integer bounds, step 1.\<close>

definition py_slice :: "'a list \<Rightarrow> int \<Rightarrow> int \<Rightarrow> 'a list" where
  "py_slice xs l r =
     (let n = int (length xs);
          l' = (if l < 0 then max 0 (l + n) else min l n);
          r' = (if r < 0 then max 0 (r + n) else min r n)
      in take (nat (r' - l')) (drop (nat l') xs))"

text \<open>\<^verbatim>\<open>int(x)\<close> for a float: truncation towards zero.\<close>

definition py_int :: "real \<Rightarrow> int" where
  "py_int x = (if 0 \<le> x then \<lfloor>x\<rfloor> else \<lceil>x\<rceil>)"

text \<open>\<^verbatim>\<open>str(n)\<close> for an integer: decimal digits, a minus sign when negative.\<close>

definition digit_char :: "nat \<Rightarrow> char" where
  "digit_char d = ''0123456789'' ! d"

function str_nat :: "nat \<Rightarrow> string" where
  "str_nat n = (if n < 10 then [digit_char n] else str_nat (n div 10) @ [digit_char (n mod 10)])"
  by pat_completeness auto
termination
  by (relation "measure id") auto

declare str_nat.simps [simp del]

definition str_int :: "int \<Rightarrow> string" where
  "str_int i = (if i < 0 then CHR ''-'' # str_nat (nat (- i)) else str_nat (nat i))"

section \<open>Configuration, collaborators and the processor\<close>

text \<open>The fields of \<^verbatim>\<open>arg\<close> (built by \<^verbatim>\<open>get_parser\<close>) that the control code reads.\<close>

record arg =
  arg_phase :: string
  arg_weights :: "string option"
  arg_ignore_weights :: "string list"
  arg_optimizer :: string
  arg_checkpoint :: "string option"
  arg_lr_scheduler :: string
  arg_batch_size :: int
  arg_forward_batch_size :: int
  arg_start_epoch :: int
  arg_num_epoch :: int
  arg_save_interval :: int
  arg_eval_start :: int
  arg_epoch_warn :: int
  arg_early_stopping :: int
  arg_save_score :: bool
  arg_debug :: bool
  arg_base_lr :: real
  arg_use_tta :: bool
  arg_tta :: "(bool \<times> int) list"

text \<open>A tensor is its shape and its entries; a state dict is an \<^verbatim>\<open>OrderedDict\<close>.\<close>

datatype tensor = Tensor (shape: "nat list") (entries: "real list")

type_synonym state_dict = "(string \<times> tensor) list"

type_synonym matrix = "real list list"

text \<open>The blob written by \<^verbatim>\<open>save_checkpoint\<close> and read back by \<^verbatim>\<open>torch.load\<close>.\<close>

record ('o, 'l) checkpoint =
  ck_epoch :: int
  optimizer_states :: 'o
  lr_scheduler_states :: 'l

text \<open>
  Effects on the outside world, in the order the code performs them: calls on the
  model, the optimizer and the scheduler, scalars sent to the tensorboard writers, and
  files written. The numbers a forward pass produces are the model's; an event keeps
  what the control code decides (the slice it feeds, the divisor of the loss, the
  step a scalar is keyed by, the name of a file).
\<close>

datatype 'x event =
    EpochScalar int real
  | MetricScalar string string real
  | ZeroGrad
  | Forward "'x list"
  | Backward int
  | OptimizerStep
  | SchedulerStep
  | SchedulerStepLoss real
  | SaveStates string string
  | EvalView string
  | SaveScore string
  | PrintLog string

text \<open>
  The external collaborators (torch, numpy, the model class, the feeder): what the
  control code gets from them, as functions. \<open>'x\<close> is a training sample, \<open>'o\<close> and
  \<open>'l\<close> are the opaque states of the optimizer and of the scheduler.
\<close>

record ('x, 'o, 'l) env =
  parse_int :: "string \<Rightarrow> int option"
  torch_load_weights :: "string \<Rightarrow> error + state_dict"
  torch_load_checkpoint :: "string \<Rightarrow> error + ('o, 'l) checkpoint"
  new_model :: state_dict
  new_optimizer :: "string \<Rightarrow> 'o"
  new_scheduler :: "string \<Rightarrow> 'o \<Rightarrow> 'l"
  optimizer_step :: "'o \<Rightarrow> 'o"
  optimizer_lr :: "'o \<Rightarrow> real"
  scheduler_step :: "'l \<Rightarrow> 'l"
  scheduler_step_loss :: "real \<Rightarrow> 'l \<Rightarrow> 'l"
  train_loader :: "int \<Rightarrow> 'x list list"
  len_train_loader :: int
  run_view :: "int \<Rightarrow> string \<Rightarrow> matrix \<times> real"
  top_k :: "matrix \<Rightarrow> nat \<Rightarrow> real"

text \<open>The instance fields of \<^verbatim>\<open>Processor\<close>, and the trace of its effects.\<close>

record ('x, 'o, 'l) processor =
  model :: state_dict
  optimizer :: 'o
  lr_scheduler :: "'l option"
  lst_name_test_tta :: "string list"
  global_step :: real
  lr :: real
  best_acc :: real
  best_acc_epoch :: int
  best_loss_val :: real
  counter_early_stopping :: int
  events :: "'x event list"

definition emit :: "'x event list \<Rightarrow> ('x, 'o, 'l) processor \<Rightarrow> ('x, 'o, 'l) processor" where
  "emit es p = p\<lparr>events := events p @ es\<rparr>"

section \<open>Persistence: \<^verbatim>\<open>save_states\<close>, \<^verbatim>\<open>save_weights\<close>, \<^verbatim>\<open>save_checkpoint\<close>\<close>

definition save_states ::
  "string \<Rightarrow> string \<Rightarrow> ('x, 'o, 'l) processor \<Rightarrow> ('x, 'o, 'l) processor" where
  "save_states out_folder out_name p = emit [SaveStates out_folder out_name] p"

definition save_weights :: "int \<Rightarrow> ('x, 'o, 'l) processor \<Rightarrow> ('x, 'o, 'l) processor outcome" where
  "save_weights ep p =
     Returned (save_states ''weights'' (''weights-'' @ str_int ep @ ''.pt'') p)"

text \<open>
  \<^verbatim>\<open>self.lr_scheduler.state_dict()\<close> raises AttributeError when no scheduler was
  built; the name embeds \<^verbatim>\<open>int(self.global_step)\<close>.
\<close>

definition checkpoint_name :: "arg \<Rightarrow> int \<Rightarrow> real \<Rightarrow> string" where
  "checkpoint_name a ep gs =
     ''checkpoint-'' @ str_int ep @ ''-fwbz'' @ str_int (arg_forward_batch_size a) @ ''-''
       @ str_int (py_int gs) @ ''.pt''"

definition save_checkpoint ::
  "arg \<Rightarrow> int \<Rightarrow> ('x, 'o, 'l) processor \<Rightarrow> ('x, 'o, 'l) processor outcome" where
  "save_checkpoint a ep p =
     (case lr_scheduler p of
        None \<Rightarrow> Raised AttributeError p
      | Some sch \<Rightarrow> Returned (save_states ''checkpoints'' (checkpoint_name a ep (global_step p)) p))"

section \<open>\<^verbatim>\<open>Processor.train\<close>: one epoch with gradient accumulation\<close>

text \<open>
  The inner loop \<^verbatim>\<open>for i in range(splits)\<close>: forward on \<^verbatim>\<open>data[left:right]\<close>,
  backward on the loss divided by \<^verbatim>\<open>splits\<close>, three scalars keyed by the global step.
\<close>

fun train_micro :: "'x list \<Rightarrow> int \<Rightarrow> int \<Rightarrow> real \<Rightarrow> int list \<Rightarrow> 'x event list" where
  "train_micro data real_batch_size splits gs [] = []"
| "train_micro data real_batch_size splits gs (i # rest) =
     (let left = i * real_batch_size;
          right = left + real_batch_size
      in [Forward (py_slice data left right), Backward splits,
          MetricScalar ''train'' ''acc'' gs, MetricScalar ''train'' ''loss'' gs,
          MetricScalar ''train'' ''loss_l1'' gs]
         @ train_micro data real_batch_size splits gs rest)"

text \<open>
  One iteration of \<^verbatim>\<open>for batch_idx, (data, label, index) in enumerate(process)\<close>.
  The second component counts the entries of \<^verbatim>\<open>acc_values\<close>. The model
  follows the code for a macro-batch that yields at least one micro-batch; with none
  (an empty macro-batch, or a negative forward batch size that divides its length)
  Python stops at \<^verbatim>\<open>del output\<close>, a name that was never bound, which is
  not part of the model.
\<close>

definition train_batch ::
  "('x, 'o, 'l) env \<Rightarrow> arg \<Rightarrow> 'x list \<Rightarrow> ('x, 'o, 'l) processor \<times> nat
     \<Rightarrow> (('x, 'o, 'l) processor \<times> nat) outcome" where
  "train_batch env a data pn =
     (let p1 = (fst pn)\<lparr>global_step := global_step (fst pn) + 1\<rparr>;
          p2 = emit [ZeroGrad] p1;
          real_batch_size = arg_forward_batch_size a
      in if real_batch_size = 0 then Raised ZeroDivisionError (p2, snd pn)
         else
           let splits = int (length data) div real_batch_size
           in if int (length data) mod real_batch_size \<noteq> 0
              then Raised AssertionError (p2, snd pn)
              else
                let p3 = emit (train_micro data real_batch_size splits (global_step p2)
                                 [0..splits - 1]) p2;
                    p4 = emit [OptimizerStep] (p3\<lparr>optimizer := optimizer_step env (optimizer p3)\<rparr>);
                    p5 = emit [MetricScalar ''train'' ''lr'' (global_step p4)]
                           (p4\<lparr>lr := optimizer_lr env (optimizer p4)\<rparr>)
                in Returned (p5, snd pn + length [0..splits - 1]))"

fun train_loop ::
  "('x, 'o, 'l) env \<Rightarrow> arg \<Rightarrow> 'x list list \<Rightarrow> ('x, 'o, 'l) processor \<times> nat
     \<Rightarrow> (('x, 'o, 'l) processor \<times> nat) outcome" where
  "train_loop env a [] pn = Returned pn"
| "train_loop env a (data # rest) pn =
     (case train_batch env a data pn of
        Raised e pn' \<Rightarrow> Raised e pn'
      | Returned pn' \<Rightarrow> train_loop env a rest pn')"

text \<open>
  After the loop: \<^verbatim>\<open>torch.stack(acc_values)\<close> raises RuntimeError on an empty
  list, \<^verbatim>\<open>batch_size // forward_batch_size\<close> raises on a zero divisor; then the
  scheduler step (not for the plateau scheduler, not before \<^verbatim>\<open>epoch_warn\<close>), then
  the two saves when \<^verbatim>\<open>save_model\<close> is set. The scheduler's own
  \<^verbatim>\<open>step\<close> is taken to return.
\<close>

definition train_scheduler ::
  "('x, 'o, 'l) env \<Rightarrow> arg \<Rightarrow> int \<Rightarrow> ('x, 'o, 'l) processor \<Rightarrow> ('x, 'o, 'l) processor" where
  "train_scheduler env a ep p =
     (case lr_scheduler p of
        None \<Rightarrow> p
      | Some sch \<Rightarrow>
          if arg_lr_scheduler a \<noteq> ''ReduceLROnPlateau'' \<and> arg_epoch_warn a \<le> ep
          then emit [SchedulerStep] (p\<lparr>lr_scheduler := Some (scheduler_step env sch)\<rparr>)
          else p)"

definition train_save ::
  "arg \<Rightarrow> int \<Rightarrow> bool \<Rightarrow> ('x, 'o, 'l) processor \<Rightarrow> ('x, 'o, 'l) processor outcome" where
  "train_save a ep save_model p =
     (if save_model then and_then (save_weights (ep + 1) p) (save_checkpoint a (ep + 1))
      else Returned p)"

definition train ::
  "('x, 'o, 'l) env \<Rightarrow> arg \<Rightarrow> int \<Rightarrow> bool \<Rightarrow> ('x, 'o, 'l) processor
     \<Rightarrow> ('x, 'o, 'l) processor outcome" where
  "train env a ep save_model p =
     (case train_loop env a (train_loader env ep)
             (emit [EpochScalar (ep + 1) (global_step p)] p, 0) of
        Raised e pn \<Rightarrow> Raised e (fst pn)
      | Returned pn \<Rightarrow>
          if snd pn = 0 then Raised RuntimeError (fst pn)
          else if arg_forward_batch_size a = 0 then Raised ZeroDivisionError (fst pn)
          else train_save a ep save_model (train_scheduler env a ep (fst pn)))"

section \<open>\<^verbatim>\<open>Processor.eval\<close>: views, score fusion, best metrics\<close>

text \<open>
  A score matrix is the list of its rows. \<^verbatim>\<open>score += m\<close> on numpy arrays adds
  \<open>m\<close> broadcast to the shape of \<open>score\<close>, and raises ValueError when \<open>m\<close> cannot
  be broadcast to it.
\<close>

definition np_zeros :: "nat \<Rightarrow> nat \<Rightarrow> matrix" where
  "np_zeros n c = replicate n (replicate c 0)"

definition broadcast_to :: "nat \<Rightarrow> nat \<Rightarrow> matrix \<Rightarrow> matrix" where
  "broadcast_to n c m =
     map (\<lambda>row. if length row = 1 then replicate c (hd row) else row)
       (if length m = 1 then replicate n (hd m) else m)"

definition np_iadd :: "matrix \<Rightarrow> matrix \<Rightarrow> error + matrix" where
  "np_iadd score m =
     (let n = length score;
          c = (case score of [] \<Rightarrow> 0 | r # _ \<Rightarrow> length r)
      in case m of
           [] \<Rightarrow> Inl ValueError
         | mr # _ \<Rightarrow>
             if (length m = n \<or> length m = 1) \<and> (length mr = c \<or> length mr = 1)
             then Inr (map2 (map2 (+)) score (broadcast_to n c m))
             else Inl ValueError)"

text \<open>The loop \<^verbatim>\<open>for i in range(len(lst_score)): iter = iter + 1; score += lst_score[i]\<close>.\<close>

fun sum_views :: "matrix \<Rightarrow> nat \<Rightarrow> matrix list \<Rightarrow> error + matrix \<times> nat" where
  "sum_views score iter [] = Inr (score, iter)"
| "sum_views score iter (m # rest) =
     (case np_iadd score m of
        Inl e \<Rightarrow> Inl e
      | Inr score' \<Rightarrow> sum_views score' (iter + 1) rest)"

text \<open>
  Lines 851 to 856 of \<^verbatim>\<open>eval\<close>: \<^verbatim>\<open>lst_score[0]\<close> and \<^verbatim>\<open>lst_score[0][0]\<close>
  raise IndexError on an empty list of views or a view without rows; the sum is
  divided by the number of views.
\<close>

definition fuse_scores :: "matrix list \<Rightarrow> error + matrix" where
  "fuse_scores lst_score =
     (case lst_score of
        [] \<Rightarrow> Inl IndexError
      | v0 # _ \<Rightarrow>
          (case v0 of
             [] \<Rightarrow> Inl IndexError
           | r0 # _ \<Rightarrow>
               (case sum_views (np_zeros (length v0) (length r0)) 0 lst_score of
                  Inl e \<Rightarrow> Inl e
                | Inr (score, iter) \<Rightarrow> Inr (map (map (\<lambda>x. x / real iter)) score))))"

definition np_mean :: "real list \<Rightarrow> real" where
  "np_mean xs = sum_list xs / real (length xs)"

text \<open>Lines 860 to 862: the best top-1 accuracy and its epoch.\<close>

definition update_best_acc ::
  "real \<Rightarrow> int \<Rightarrow> ('x, 'o, 'l) processor \<Rightarrow> ('x, 'o, 'l) processor" where
  "update_best_acc accuracy ep p =
     (if accuracy > best_acc p then p\<lparr>best_acc := accuracy, best_acc_epoch := ep + 1\<rparr> else p)"

text \<open>Lines 866 to 870: the early-stopping counter and the best validation loss.\<close>

definition update_early_stopping :: "real \<Rightarrow> ('x, 'o, 'l) processor \<Rightarrow> ('x, 'o, 'l) processor" where
  "update_early_stopping loss p =
     (if loss > best_loss_val p \<and> best_loss_val p \<noteq> - 1
      then p\<lparr>counter_early_stopping := counter_early_stopping p + 1\<rparr>
      else p\<lparr>counter_early_stopping := 0, best_loss_val := loss\<rparr>)"

definition eval_scalars :: "arg \<Rightarrow> ('x, 'o, 'l) processor \<Rightarrow> ('x, 'o, 'l) processor" where
  "eval_scalars a p =
     (if arg_phase a = ''train'' \<and> \<not> arg_debug a
      then emit [MetricScalar ''val'' ''loss'' (global_step p),
                 MetricScalar ''val'' ''loss_l1'' (global_step p),
                 MetricScalar ''val'' ''acc'' (global_step p)] p
      else p)"

definition eval_scheduler ::
  "('x, 'o, 'l) env \<Rightarrow> arg \<Rightarrow> real \<Rightarrow> ('x, 'o, 'l) processor \<Rightarrow> ('x, 'o, 'l) processor" where
  "eval_scheduler env a loss p =
     (case lr_scheduler p of
        None \<Rightarrow> p
      | Some sch \<Rightarrow>
          if arg_lr_scheduler a = ''ReduceLROnPlateau''
          then emit [SchedulerStepLoss loss] (p\<lparr>lr_scheduler := Some (scheduler_step_loss env loss sch)\<rparr>)
          else p)"

definition eval_save_score :: "int \<Rightarrow> bool \<Rightarrow> ('x, 'o, 'l) processor \<Rightarrow> ('x, 'o, 'l) processor" where
  "eval_save_score ep save_score p =
     (if save_score then emit [SaveScore (''epoch'' @ str_int (ep + 1) @ ''_test_score.pkl'')] p
      else p)"

text \<open>
  \<^verbatim>\<open>eval\<close>: nothing happens before \<^verbatim>\<open>eval_start\<close>; otherwise every loader of
  \<^verbatim>\<open>loader_name\<close> is run in order (\<open>run_view\<close> gives the concatenated scores and
  the mean loss of one view), the scores are fused, and the metrics updated. The
  per-sample text files of the test phase are not part of the model, nor is a
  validation writer that was never created; a view is taken to have rows (for a
  loader without batches numpy already stops in \<^verbatim>\<open>np.concatenate\<close>, inside
  the loop over the views).
\<close>

definition eval ::
  "('x, 'o, 'l) env \<Rightarrow> arg \<Rightarrow> int \<Rightarrow> bool \<Rightarrow> string list \<Rightarrow> ('x, 'o, 'l) processor
     \<Rightarrow> ('x, 'o, 'l) processor outcome" where
  "eval env a ep save_score loader_name p =
     (if ep + 1 < arg_eval_start a then Returned p
      else
        let p1 = emit (map EvalView loader_name) p;
            lst_score = map (\<lambda>ln. fst (run_view env ep ln)) loader_name;
            lst_losses = map (\<lambda>ln. snd (run_view env ep ln)) loader_name
        in case fuse_scores lst_score of
             Inl e \<Rightarrow> Raised e p1
           | Inr score \<Rightarrow>
               let loss = np_mean lst_losses;
                   accuracy = top_k env score 1
               in Returned
                    (eval_save_score ep save_score
                      (eval_scheduler env a loss
                        (eval_scalars a
                          (update_early_stopping loss
                            (update_best_acc accuracy ep p1))))))"

section \<open>\<^verbatim>\<open>Processor.start\<close>: the epoch loop\<close>

text \<open>
  The body of \<^verbatim>\<open>for epoch in range(start_epoch, num_epoch)\<close>, over the list of the
  epochs still to run; \<^verbatim>\<open>break\<close> returns without running the rest.
\<close>

fun epoch_loop ::
  "('x, 'o, 'l) env \<Rightarrow> arg \<Rightarrow> int list \<Rightarrow> ('x, 'o, 'l) processor
     \<Rightarrow> ('x, 'o, 'l) processor outcome" where
  "epoch_loop env a [] p = Returned p"
| "epoch_loop env a (ep # rest) p =
     (if arg_save_interval a = 0 then Raised ZeroDivisionError p
      else
        let save_model = ((ep + 1) mod arg_save_interval a = 0 \<or> ep + 1 = arg_num_epoch a)
        in case train env a ep save_model p of
             Raised e p1 \<Rightarrow> Raised e p1
           | Returned p1 \<Rightarrow>
               (case eval env a ep (arg_save_score a) (lst_name_test_tta p1) p1 of
                  Raised e p2 \<Rightarrow> Raised e p2
                | Returned p2 \<Rightarrow>
                    if 0 < arg_early_stopping a \<and> 0 < counter_early_stopping p2
                       \<and> arg_early_stopping a < counter_early_stopping p2
                    then Returned p2
                    else epoch_loop env a rest p2))"

text \<open>
  \<^verbatim>\<open>start\<close>: in the train phase the global step is first overwritten with
  \<^verbatim>\<open>start_epoch * len(loader) / batch_size\<close> (true division); the test phase needs
  \<^verbatim>\<open>--weights\<close> and runs one evaluation.
\<close>

definition start ::
  "('x, 'o, 'l) env \<Rightarrow> arg \<Rightarrow> ('x, 'o, 'l) processor \<Rightarrow> ('x, 'o, 'l) processor outcome" where
  "start env a p =
     (if arg_phase a = ''train'' then
        if arg_batch_size a = 0 then Raised ZeroDivisionError p
        else epoch_loop env a [arg_start_epoch a..arg_num_epoch a - 1]
               (p\<lparr>global_step :=
                   real_of_int (arg_start_epoch a * len_train_loader env)
                     / real_of_int (arg_batch_size a)\<rparr>)
      else if arg_phase a = ''test'' then
        (case arg_weights a of
           None \<Rightarrow> Raised ValueError p
         | Some w \<Rightarrow> eval env a 0 (arg_save_score a) (lst_name_test_tta p) p)
      else Returned p)"

section \<open>Initialisation: \<^verbatim>\<open>load_model\<close>, \<^verbatim>\<open>load_optimizer\<close>, \<^verbatim>\<open>load_lr_scheduler\<close>\<close>

text \<open>
  \<^verbatim>\<open>s.split(sep)[-1]\<close>: the text after the last occurrence of \<open>sep\<close> found by a
  left-to-right scan without overlaps, the whole string when there is none.
\<close>

function split_last :: "string \<Rightarrow> string \<Rightarrow> string \<Rightarrow> string" where
  "split_last sep cur s =
     (if s = [] then cur
      else if sep \<noteq> [] \<and> take (length sep) s = sep
      then split_last sep (drop (length sep) s) (drop (length sep) s)
      else split_last sep cur (tl s))"
  by pat_completeness auto
termination
  by (relation "measure (\<lambda>(sep, cur, s). length s)") auto

declare split_last.simps [simp del]

definition strip_module :: "string \<Rightarrow> string" where
  "strip_module k = split_last ''module.'' k k"

text \<open>\<^verbatim>\<open>OrderedDict(pairs)\<close> and \<^verbatim>\<open>d.update(other)\<close>: a key keeps its first position.\<close>

definition ordered_dict :: "(string \<times> tensor) list \<Rightarrow> state_dict" where
  "ordered_dict pairs = fold (\<lambda>kv d. AList.update (fst kv) (snd kv) d) pairs []"

definition dict_update :: "state_dict \<Rightarrow> state_dict \<Rightarrow> state_dict" where
  "dict_update d other = fold (\<lambda>kv d'. AList.update (fst kv) (snd kv) d') other d"

text \<open>
  The loop over \<^verbatim>\<open>arg.ignore_weights\<close>: \<^verbatim>\<open>weights.pop(w, None)\<close>, with one log
  line for each name.
\<close>

fun remove_ignored :: "string list \<Rightarrow> state_dict \<Rightarrow> state_dict \<times> 'x event list" where
  "remove_ignored [] weights = (weights, [])"
| "remove_ignored (w # rest) weights =
     (let line = (if map_of weights w \<noteq> None
                  then PrintLog (''Successfully removed weight: '' @ w)
                  else PrintLog (''Cannot remove weight: '' @ w));
          r = remove_ignored rest (AList.delete w weights)
      in (fst r, line # snd r))"

text \<open>
  \<^verbatim>\<open>Module.load_state_dict(sd, strict)\<close> of torch, on the module's own state dict
  \<open>st\<close>: every entry of \<open>sd\<close> whose name and shape match is copied in place; a
  shape mismatch, and under \<open>strict\<close> a missing or an unexpected key, raises
  RuntimeError after the copies.
\<close>

definition copy_matching :: "state_dict \<Rightarrow> state_dict \<Rightarrow> state_dict" where
  "copy_matching st sd =
     map (\<lambda>kt. case map_of sd (fst kt) of
                 None \<Rightarrow> kt
               | Some t' \<Rightarrow> if shape t' = shape (snd kt) then (fst kt, t') else kt) st"

definition size_mismatch :: "state_dict \<Rightarrow> state_dict \<Rightarrow> string list" where
  "size_mismatch st sd =
     map fst (filter (\<lambda>kt. case map_of sd (fst kt) of
                             None \<Rightarrow> False
                           | Some t' \<Rightarrow> shape t' \<noteq> shape (snd kt)) st)"

definition missing_keys :: "state_dict \<Rightarrow> state_dict \<Rightarrow> string list" where
  "missing_keys st sd = filter (\<lambda>k. map_of sd k = None) (map fst st)"

definition unexpected_keys :: "state_dict \<Rightarrow> state_dict \<Rightarrow> string list" where
  "unexpected_keys st sd = filter (\<lambda>k. map_of st k = None) (map fst sd)"

definition load_state_dict :: "state_dict \<Rightarrow> state_dict \<Rightarrow> bool \<Rightarrow> state_dict outcome" where
  "load_state_dict st sd strict =
     (if size_mismatch st sd \<noteq> []
         \<or> (strict \<and> (missing_keys st sd \<noteq> [] \<or> unexpected_keys st sd \<noteq> []))
      then Raised RuntimeError (copy_matching st sd)
      else Returned (copy_matching st sd))"

text \<open>
  The \<^verbatim>\<open>try\<close>/\<^verbatim>\<open>except\<close> of \<^verbatim>\<open>load_model\<close> (lines 454 to 472): a first load with
  \<^verbatim>\<open>strict=False\<close>; on an exception the names of the model that the snapshot
  lacks are logged (in the order of the model here, the order of a Python set being
  unspecified), the snapshot is merged into the model's state dict and that dict is
  loaded with the default \<^verbatim>\<open>strict=True\<close>, outside any handler. The result is the
  model's state dict and the lines logged.
\<close>

definition restore_weights ::
  "state_dict \<Rightarrow> state_dict \<Rightarrow> (state_dict \<times> 'x event list) outcome" where
  "restore_weights st weights =
     (case load_state_dict st weights False of
        Returned st' \<Rightarrow> Returned (st', [])
      | Raised e st' \<Rightarrow>
          let diff = filter (\<lambda>k. map_of weights k = None) (map fst st');
              logs = [PrintLog ''Error loading weights'', PrintLog ''Cannot find these weights:'']
                       @ map (\<lambda>d. PrintLog (''  '' @ d)) diff;
              state = dict_update st' weights
          in case load_state_dict st' state True of
               Raised e' st'' \<Rightarrow> Raised e' (st'', logs)
             | Returned st'' \<Rightarrow>
                 Returned (st'', logs @ [PrintLog ''Weights loaded partially.'']))"

text \<open>
  \<^verbatim>\<open>load_model\<close>: the fresh model; when \<^verbatim>\<open>arg.weights\<close> is set (and not empty),
  the global step parsed from the file name (0 when \<^verbatim>\<open>int\<close> raises), the snapshot
  read, its keys stripped of the \<^verbatim>\<open>module.\<close> prefix, the ignored names removed, and
  the weights restored. The result is the model's state dict, the global step and the
  lines logged; the state of a failed constructor is lost with it.
\<close>

definition load_model ::
  "('x, 'o, 'l) env \<Rightarrow> arg \<Rightarrow> error + state_dict \<times> real \<times> 'x event list" where
  "load_model env a =
     (case arg_weights a of
        None \<Rightarrow> Inr (new_model env, 0, [])
      | Some w \<Rightarrow>
          if w = [] then Inr (new_model env, 0, [])
          else
            let gs = (case parse_int env (split_last ''-'' (take (length w - 3) w)
                                            (take (length w - 3) w)) of
                        Some g \<Rightarrow> real_of_int g
                      | None \<Rightarrow> 0)
            in case torch_load_weights env w of
                 Inl e \<Rightarrow> Inl e
               | Inr raw \<Rightarrow>
                   let weights = ordered_dict (map (\<lambda>kv. (strip_module (fst kv), snd kv)) raw);
                       r = remove_ignored (arg_ignore_weights a) weights
                   in case restore_weights (new_model env) (fst r) of
                        Raised e sl \<Rightarrow> Inl e
                      | Returned sl \<Rightarrow> Inr (fst sl, gs, snd r @ snd sl))"

text \<open>
  \<^verbatim>\<open>load_optimizer\<close>: SGD or Adam, anything else raises ValueError; with a
  checkpoint path the optimizer loads the checkpoint's \<^verbatim>\<open>optimizer_states\<close>.
\<close>

definition load_optimizer :: "('x, 'o, 'l) env \<Rightarrow> arg \<Rightarrow> error + 'o" where
  "load_optimizer env a =
     (if arg_optimizer a = ''SGD'' \<or> arg_optimizer a = ''Adam'' then
        (case arg_checkpoint a of
           None \<Rightarrow> Inr (new_optimizer env (arg_optimizer a))
         | Some path \<Rightarrow>
             (case torch_load_checkpoint env path of
                Inl e \<Rightarrow> Inl e
              | Inr ck \<Rightarrow> Inr (optimizer_states ck)))
      else Inl ValueError)"

text \<open>
  \<^verbatim>\<open>load_lr_scheduler\<close>: the scheduler starts as \<^verbatim>\<open>None\<close> and is built for the
  three known names only; with a checkpoint path \<^verbatim>\<open>self.lr_scheduler.load_state_dict\<close>
  is called, which raises AttributeError on \<^verbatim>\<open>None\<close>.
\<close>

definition load_lr_scheduler :: "('x, 'o, 'l) env \<Rightarrow> arg \<Rightarrow> 'o \<Rightarrow> error + 'l option" where
  "load_lr_scheduler env a opt =
     (let sch = (if arg_lr_scheduler a = ''MultiStepLR''
                    \<or> arg_lr_scheduler a = ''ReduceLROnPlateau''
                    \<or> arg_lr_scheduler a = ''CosineAnnealingLR''
                 then Some (new_scheduler env (arg_lr_scheduler a) opt) else None)
      in case arg_checkpoint a of
           None \<Rightarrow> Inr sch
         | Some path \<Rightarrow>
             (case torch_load_checkpoint env path of
                Inl e \<Rightarrow> Inl e
              | Inr ck \<Rightarrow>
                  (case sch of
                     None \<Rightarrow> Inl AttributeError
                   | Some s \<Rightarrow> Inr (Some (lr_scheduler_states ck)))))"

definition get_lst_name_test_tta :: "arg \<Rightarrow> string list" where
  "get_lst_name_test_tta a = map (\<lambda>idx. ''test_tta_'' @ str_nat idx) [0..<length (arg_tta a)]"

text \<open>
  \<^verbatim>\<open>Processor.__init__\<close>: the loaders' names, the model, the optimizer, the
  scheduler, then the run state. \<^verbatim>\<open>self.global_step = 0\<close> comes after
  \<^verbatim>\<open>load_model\<close>, so the step parsed from the weights file name is overwritten.
\<close>

definition init :: "('x, 'o, 'l) env \<Rightarrow> arg \<Rightarrow> error + ('x, 'o, 'l) processor" where
  "init env a =
     (case load_model env a of
        Inl e \<Rightarrow> Inl e
      | Inr m \<Rightarrow>
          (case load_optimizer env a of
             Inl e \<Rightarrow> Inl e
           | Inr opt \<Rightarrow>
               (case load_lr_scheduler env a opt of
                  Inl e \<Rightarrow> Inl e
                | Inr sch \<Rightarrow>
                    Inr \<lparr>model = fst m, optimizer = opt, lr_scheduler = sch,
                         lst_name_test_tta = get_lst_name_test_tta a,
                         global_step = 0, lr = arg_base_lr a, best_acc = 0,
                         best_acc_epoch = 0, best_loss_val = - 1,
                         counter_early_stopping = 0, events = snd (snd m)\<rparr>)))"

text \<open>
  \<^verbatim>\<open>main\<close>: with \<^verbatim>\<open>use_tta\<close> off only the first entry of \<^verbatim>\<open>arg.tta\<close> is kept
  (\<^verbatim>\<open>arg.tta[0]\<close> raises IndexError on an empty list); then the processor is built
  and started.
\<close>

definition main_tta :: "arg \<Rightarrow> error + arg" where
  "main_tta a =
     (if \<not> arg_use_tta a
      then (case arg_tta a of [] \<Rightarrow> Inl IndexError | t # _ \<Rightarrow> Inr (a\<lparr>arg_tta := [t]\<rparr>))
      else Inr a)"

definition main :: "('x, 'o, 'l) env \<Rightarrow> arg \<Rightarrow> error + ('x, 'o, 'l) processor outcome" where
  "main env a =
     (case main_tta a of
        Inl e \<Rightarrow> Inl e
      | Inr a' \<Rightarrow>
          (case init env a' of
             Inl e \<Rightarrow> Inl e
           | Inr p \<Rightarrow> Inr (start env a' p)))"

section \<open>A small configuration to run the model on\<close>

text \<open>
  The defaults of \<^verbatim>\<open>get_parser\<close>, a configuration with small batches and one
  epoch, collaborators with two macro-batches of four samples and one evaluation
  view, and a processor as \<^verbatim>\<open>__init__\<close> leaves it.
\<close>

definition parser_defaults :: arg where
  "parser_defaults =
     \<lparr>arg_phase = ''train'', arg_weights = None, arg_ignore_weights = [],
      arg_optimizer = ''SGD'', arg_checkpoint = None, arg_lr_scheduler = ''MultiStepLR'',
      arg_batch_size = 32, arg_forward_batch_size = 16, arg_start_epoch = 0,
      arg_num_epoch = 80, arg_save_interval = 1, arg_eval_start = 1, arg_epoch_warn = 0,
      arg_early_stopping = 0, arg_save_score = False, arg_debug = False,
      arg_base_lr = 1 / 100, arg_use_tta = False, arg_tta = [(False, 1)]\<rparr>"

definition toy_arg :: arg where
  "toy_arg = parser_defaults\<lparr>arg_batch_size := 4, arg_forward_batch_size := 2, arg_num_epoch := 1\<rparr>"

definition toy_env :: "(nat, nat, nat) env" where
  "toy_env =
     \<lparr>parse_int = (\<lambda>s. if s = ''7'' then Some 7 else None),
      torch_load_weights = (\<lambda>path. Inr [(''module.fc.weight'', Tensor [2] [5, 6])]),
      torch_load_checkpoint =
        (\<lambda>path. Inr \<lparr>ck_epoch = 5, optimizer_states = 41, lr_scheduler_states = 17\<rparr>),
      new_model = [(''fc.weight'', Tensor [2] [0, 0]), (''fc.bias'', Tensor [1] [0])],
      new_optimizer = (\<lambda>name. 0),
      new_scheduler = (\<lambda>name opt. 0),
      optimizer_step = Suc,
      optimizer_lr = (\<lambda>opt. 1 / 100),
      scheduler_step = Suc,
      scheduler_step_loss = (\<lambda>loss. Suc),
      train_loader = (\<lambda>ep. [[1, 2, 3, 4], [5, 6, 7, 8]]),
      len_train_loader = 2,
      run_view = (\<lambda>ep ln. ([[1, 0], [0, 1]], 1)),
      top_k = (\<lambda>score k. 1 / 2)\<rparr>"

definition toy_processor :: "(nat, nat, nat) processor" where
  "toy_processor =
     \<lparr>model = [(''fc.weight'', Tensor [2] [0, 0]), (''fc.bias'', Tensor [1] [0])],
      optimizer = 0, lr_scheduler = Some 0, lst_name_test_tta = [''test_tta_0''],
      global_step = 0, lr = 1 / 100, best_acc = 0, best_acc_epoch = 0,
      best_loss_val = - 1, counter_early_stopping = 0, events = []\<rparr>"

text \<open>The same with a batch size of three, which the forward batch size does not divide.\<close>

definition odd_env :: "(nat, nat, nat) env" where
  "odd_env = toy_env\<lparr>train_loader := (\<lambda>ep. [[1, 2, 3], [4, 5, 6]])\<rparr>"

definition odd_arg :: arg where
  "odd_arg = toy_arg\<lparr>arg_batch_size := 3\<rparr>"



text \<open>The epochs a trace has started, from the \<^verbatim>\<open>epoch\<close> scalars that \<^verbatim>\<open>train\<close> writes first.\<close>

fun epoch_of :: "'x event \<Rightarrow> int option" where
  "epoch_of (EpochScalar e g) = Some e"
| "epoch_of _ = None"

definition epochs_run :: "'x event list \<Rightarrow> int list" where
  "epochs_run es = List.map_filter epoch_of es"

text \<open>
  The early-stopping scenario: a threshold of 2, up to ten epochs of one macro-batch,
  and validation losses 1.0, 1.2, 1.3, then 1.1.
\<close>

definition es_env :: "(nat, nat, nat) env" where
  "es_env = toy_env
     \<lparr>train_loader := (\<lambda>ep. [[1, 2]]),
      len_train_loader := 1,
      run_view := (\<lambda>ep ln. ([[1, 0], [0, 1]],
         if ep = 0 then 1 else if ep = 1 then 12 / 10 else if ep = 2 then 13 / 10 else 11 / 10))\<rparr>"

definition es_arg :: arg where
  "es_arg = toy_arg\<lparr>arg_batch_size := 2, arg_early_stopping := 2, arg_num_epoch := 10\<rparr>"

text \<open>Kinds of events: files saved, views evaluated, work on gradients and parameters.\<close>

fun is_save :: "'x event \<Rightarrow> bool" where
  "is_save (SaveStates folder name) = True"
| "is_save _ = False"

fun is_eval :: "'x event \<Rightarrow> bool" where
  "is_eval (EvalView name) = True"
| "is_eval _ = False"

fun is_update :: "'x event \<Rightarrow> bool" where
  "is_update ZeroGrad = True"
| "is_update (Forward xs) = True"
| "is_update (Backward k) = True"
| "is_update OptimizerStep = True"
| "is_update _ = False"

text \<open>One epoch of one macro-batch of two samples, to be run with \<open>es_env\<close>.\<close>

definition one_epoch_arg :: arg where
  "one_epoch_arg = toy_arg\<lparr>arg_batch_size := 2\<rparr>"

text \<open>
  A run that restores weights from a file, and collaborators whose snapshot has a
  tensor of another shape than the model's.
\<close>

definition weights_arg :: arg where
  "weights_arg = toy_arg\<lparr>arg_weights := Some ''runs/weights-7.pt''\<rparr>"

definition mismatch_env :: "(nat, nat, nat) env" where
  "mismatch_env = toy_env\<lparr>torch_load_weights :=
     (\<lambda>path. Inr [(''module.fc.weight'', Tensor [3] [5, 6, 7])])\<rparr>"

text \<open>
  Resuming: a checkpoint saved after the first epoch (its \<open>ck_epoch\<close> is 1), two
  epochs configured, and \<^verbatim>\<open>start_epoch\<close> left at its default 0.
\<close>

definition resume_env :: "(nat, nat, nat) env" where
  "resume_env = es_env\<lparr>torch_load_checkpoint :=
     (\<lambda>path. Inr \<lparr>ck_epoch = 1, optimizer_states = 41, lr_scheduler_states = 17\<rparr>)\<rparr>"

definition resume_arg :: arg where
  "resume_arg = one_epoch_arg
     \<lparr>arg_checkpoint := Some ''checkpoints/checkpoint-1-fwbz2-1.pt'', arg_num_epoch := 2\<rparr>"

text \<open>Configurations that name an optimizer, or a scheduler, that the code does not know.\<close>

definition bad_optimizer_arg :: arg where
  "bad_optimizer_arg = one_epoch_arg\<lparr>arg_optimizer := ''RMSprop''\<rparr>"

definition bad_scheduler_arg :: arg where
  "bad_scheduler_arg = one_epoch_arg\<lparr>arg_lr_scheduler := ''StepLR''\<rparr>"

text \<open>
  A run that starts at epoch 1 with three macro-batches of two samples an epoch, and
  weights restored from a file whose name carries the step 7.
\<close>

definition late_env :: "(nat, nat, nat) env" where
  "late_env = es_env\<lparr>train_loader := (\<lambda>ep. [[1, 2], [3, 4], [5, 6]]), len_train_loader := 3\<rparr>"

definition late_arg :: arg where
  "late_arg = one_epoch_arg
     \<lparr>arg_start_epoch := 1, arg_num_epoch := 2, arg_weights := Some ''runs/weights-7.pt''\<rparr>"

definition late_processor :: "(nat, nat, nat) processor" where
  "late_processor = toy_processor
     \<lparr>model := [(''fc.weight'', Tensor [2] [5, 6]), (''fc.bias'', Tensor [1] [0])]\<rparr>"

section \<open>Gradient accumulation in \<^verbatim>\<open>train\<close>\<close>










lemma train_batch_assert:
  assumes "arg_forward_batch_size a \<noteq> 0"
    and "int (length data) mod arg_forward_batch_size a \<noteq> 0"
  shows "train_batch env a data (p, n) =
     Raised AssertionError (p\<lparr>global_step := global_step p + 1, events := events p @ [ZeroGrad]\<rparr>, n)"
  using assms by (simp add: train_batch_def Let_def emit_def)



lemma train_save_keeps:
  "global_step (state_of (train_save a ep sm q)) = global_step q"
  "e \<in> {ZeroGrad, OptimizerStep} \<Longrightarrow>
     count_list (events (state_of (train_save a ep sm q))) e = count_list (events q) e"
  by (auto simp: train_save_def save_weights_def save_checkpoint_def save_states_def emit_def
      split: option.splits)

lemma train_scheduler_keeps:
  "global_step (train_scheduler env a ep q) = global_step q"
  "e \<in> {ZeroGrad, OptimizerStep} \<Longrightarrow>
     count_list (events (train_scheduler env a ep q)) e = count_list (events q) e"
  by (auto simp: train_scheduler_def emit_def split: option.splits)




section \<open>The assertion on the batch sizes\<close>

lemma train_asserts_first_batch:
  assumes "arg_forward_batch_size a \<noteq> 0"
    and "train_loader env ep = data # rest"
    and "int (length data) mod arg_forward_batch_size a \<noteq> 0"
  shows "train env a ep save_model p =
     Raised AssertionError
       (p\<lparr>global_step := global_step p + 1,
          events := events p @ [EpochScalar (ep + 1) (global_step p), ZeroGrad]\<rparr>)"
  by (simp add: train_def emit_def assms(2) train_batch_assert[OF assms(1,3)])

text \<open>
  C3 (as amended): when the forward batch size does not divide the batch size, the
  train phase raises the assertion error inside the first epoch, on its first
  macro-batch: the epoch scalar has been written, the global step has advanced by
  one and the gradients have been zeroed once; no forward or backward pass, no
  optimizer step and no save has happened.
\<close>

theorem start_asserts_in_first_batch:
  assumes "arg_phase a = ''train''"
    and "arg_batch_size a \<noteq> 0"
    and "arg_forward_batch_size a \<noteq> 0"
    and "arg_batch_size a mod arg_forward_batch_size a \<noteq> 0"
    and "arg_start_epoch a < arg_num_epoch a"
    and "arg_save_interval a \<noteq> 0"
    and "train_loader env (arg_start_epoch a) = data # rest"
    and "int (length data) = arg_batch_size a"
  shows "start env a p =
     Raised AssertionError
       (p\<lparr>global_step :=
            real_of_int (arg_start_epoch a * len_train_loader env) / real_of_int (arg_batch_size a) + 1,
          events := events p @
            [EpochScalar (arg_start_epoch a + 1)
               (real_of_int (arg_start_epoch a * len_train_loader env) / real_of_int (arg_batch_size a)),
             ZeroGrad]\<rparr>)"
proof -
  have u: "[arg_start_epoch a..arg_num_epoch a - 1] = arg_start_epoch a # [arg_start_epoch a + 1..arg_num_epoch a - 1]"
    using assms(5) by (simp add: upto_rec1)
  have m: "int (length data) mod arg_forward_batch_size a \<noteq> 0" using assms(4,8) by simp
  show ?thesis
    unfolding start_def u
    using assms(1,2,6) by (simp add: train_asserts_first_batch[OF assms(3,7) m])
qed

theorem start_asserts_in_first_batch_witness:
  "arg_batch_size odd_arg mod arg_forward_batch_size odd_arg \<noteq> 0
   \<and> start odd_env odd_arg toy_processor =
       Raised AssertionError (toy_processor\<lparr>global_step := 1, events := [EpochScalar 1 0, ZeroGrad]\<rparr>)"
proof -
  have v: "arg_phase odd_arg = ''train''" "arg_batch_size odd_arg = 3"
    "arg_forward_batch_size odd_arg = 2" "arg_start_epoch odd_arg = 0" "arg_num_epoch odd_arg = 1"
    "arg_save_interval odd_arg = 1"
    by (simp_all add: odd_arg_def toy_arg_def parser_defaults_def)
  have e: "train_loader odd_env (arg_start_epoch odd_arg) = [1, 2, 3] # [[4, 5, 6]]"
    "len_train_loader odd_env = 2"
    by (simp_all add: odd_env_def toy_env_def)
  have q: "events toy_processor = []" by (simp add: toy_processor_def)
  show ?thesis
    using start_asserts_in_first_batch[of odd_arg odd_env "[1, 2, 3]" "[[4, 5, 6]]" toy_processor] e
    by (simp add: v q)
qed

text \<open>
  C3 as stated fails: with a batch size of 3 and a forward batch size of 2 the run
  stops with the global step advanced and one \<^verbatim>\<open>zero_grad\<close> done.
\<close>

theorem fails_fast_counterexample:
  "raised (start odd_env odd_arg toy_processor) = Some AssertionError
   \<and> global_step (state_of (start odd_env odd_arg toy_processor)) = global_step toy_processor + 1
   \<and> events (state_of (start odd_env odd_arg toy_processor)) = [EpochScalar 1 0, ZeroGrad]"
  by (simp add: start_def odd_arg_def toy_arg_def parser_defaults_def odd_env_def toy_env_def
      toy_processor_def upto_rec1 train_def train_batch_def emit_def Let_def)

section \<open>Best accuracy and the early-stopping counter\<close>

lemma train_batch_frame:
  "best_acc (fst (state_of (train_batch env a data pn))) = best_acc (fst pn)"
  "best_loss_val (fst (state_of (train_batch env a data pn))) = best_loss_val (fst pn)"
  "counter_early_stopping (fst (state_of (train_batch env a data pn))) = counter_early_stopping (fst pn)"
  "lst_name_test_tta (fst (state_of (train_batch env a data pn))) = lst_name_test_tta (fst pn)"
  by (simp_all add: train_batch_def Let_def emit_def)

lemma train_loop_frame:
  "best_acc (fst (state_of (train_loop env a loader pn))) = best_acc (fst pn)
   \<and> best_loss_val (fst (state_of (train_loop env a loader pn))) = best_loss_val (fst pn)
   \<and> counter_early_stopping (fst (state_of (train_loop env a loader pn))) = counter_early_stopping (fst pn)
   \<and> lst_name_test_tta (fst (state_of (train_loop env a loader pn))) = lst_name_test_tta (fst pn)"
proof (induction loader arbitrary: pn)
  case Nil
  show ?case by simp
next
  case (Cons data rest)
  show ?case
  proof (cases "train_batch env a data pn")
    case (Returned pn')
    then show ?thesis using Cons.IH[of pn'] train_batch_frame[of env a data pn] by simp
  next
    case (Raised e pn')
    then show ?thesis using train_batch_frame[of env a data pn] by simp
  qed
qed

lemma train_frame:
  "best_acc (state_of (train env a ep sm p)) = best_acc p
   \<and> best_loss_val (state_of (train env a ep sm p)) = best_loss_val p
   \<and> counter_early_stopping (state_of (train env a ep sm p)) = counter_early_stopping p
   \<and> lst_name_test_tta (state_of (train env a ep sm p)) = lst_name_test_tta p"
proof -
  let ?p0 = "emit [EpochScalar (ep + 1) (global_step p)] p"
  note f = train_loop_frame[of env a "train_loader env ep" "(?p0, 0)"]
  show ?thesis
  proof (cases "train_loop env a (train_loader env ep) (?p0, 0)")
    case (Returned pn)
    then show ?thesis using f
      by (simp add: train_def emit_def train_save_def train_scheduler_def save_weights_def
          save_checkpoint_def save_states_def split: option.splits)
  next
    case (Raised e pn)
    then show ?thesis using f by (simp add: train_def emit_def)
  qed
qed

lemma eval_best_acc_mono: "best_acc p \<le> best_acc (state_of (eval env a ep ss names p))"
  by (simp add: eval_def Let_def emit_def eval_save_score_def eval_scheduler_def eval_scalars_def
      update_early_stopping_def update_best_acc_def split: sum.splits option.splits)

lemma epoch_loop_best_acc_mono: "best_acc p \<le> best_acc (state_of (epoch_loop env a eps p))"
proof (induction eps arbitrary: p)
  case Nil
  show ?case by simp
next
  case (Cons ep rest)
  let ?sm = "(ep + 1) mod arg_save_interval a = 0 \<or> ep + 1 = arg_num_epoch a"
  show ?case
  proof (cases "arg_save_interval a = 0")
    case True
    then show ?thesis by simp
  next
    case False
    show ?thesis
    proof (cases "train env a ep ?sm p")
      case (Raised e p1)
      then show ?thesis using False train_frame[of env a ep ?sm p] by simp
    next
      case (Returned p1)
      then have b1: "best_acc p1 = best_acc p" using train_frame[of env a ep ?sm p] by simp
      show ?thesis
      proof (cases "eval env a ep (arg_save_score a) (lst_name_test_tta p1) p1")
        case (Raised e p2)
        then show ?thesis using False Returned b1
            eval_best_acc_mono[of p1 env a ep "arg_save_score a" "lst_name_test_tta p1"] by simp
      next
        case r2: (Returned p2)
        then have "best_acc p \<le> best_acc p2"
          using b1 eval_best_acc_mono[of p1 env a ep "arg_save_score a" "lst_name_test_tta p1"] by simp
        moreover have "best_acc p2 \<le> best_acc (state_of (epoch_loop env a rest p2))" by (rule Cons.IH)
        ultimately show ?thesis using False Returned r2 by simp
      qed
    qed
  qed
qed

lemma start_best_acc_mono: "best_acc p \<le> best_acc (state_of (start env a p))"
proof -
  let ?p0 = "p\<lparr>global_step := real_of_int (arg_start_epoch a * len_train_loader env) / real_of_int (arg_batch_size a)\<rparr>"
  have "best_acc ?p0 \<le> best_acc (state_of (epoch_loop env a [arg_start_epoch a..arg_num_epoch a - 1] ?p0))"
    by (rule epoch_loop_best_acc_mono)
  then show ?thesis
    using eval_best_acc_mono[of p env a 0 "arg_save_score a" "lst_name_test_tta p"]
    by (simp add: start_def split: option.splits)
qed

lemma eval_steps_frame:
  "best_loss_val (emit es q) = best_loss_val q"
  "counter_early_stopping (emit es q) = counter_early_stopping q"
  "best_loss_val (eval_save_score ep ss q) = best_loss_val q"
  "counter_early_stopping (eval_save_score ep ss q) = counter_early_stopping q"
  "best_loss_val (eval_scheduler env a loss q) = best_loss_val q"
  "counter_early_stopping (eval_scheduler env a loss q) = counter_early_stopping q"
  "best_loss_val (eval_scalars a q) = best_loss_val q"
  "counter_early_stopping (eval_scalars a q) = counter_early_stopping q"
  "best_loss_val (update_best_acc accuracy ep q) = best_loss_val q"
  "counter_early_stopping (update_best_acc accuracy ep q) = counter_early_stopping q"
  by (simp_all add: emit_def eval_save_score_def eval_scheduler_def eval_scalars_def
      update_best_acc_def split: option.splits)

lemma update_early_stopping_fields:
  "best_loss_val (update_early_stopping loss q) =
     (if loss > best_loss_val q \<and> best_loss_val q \<noteq> - 1 then best_loss_val q else loss)"
  "counter_early_stopping (update_early_stopping loss q) =
     (if loss > best_loss_val q \<and> best_loss_val q \<noteq> - 1 then counter_early_stopping q + 1 else 0)"
  by (simp_all add: update_early_stopping_def)

lemma eval_returns:
  assumes "\<not> ep + 1 < arg_eval_start a"
    and "fuse_scores (map (\<lambda>ln. fst (run_view env ep ln)) names) = Inr score"
  shows "eval env a ep ss names p =
     Returned (eval_save_score ep ss
       (eval_scheduler env a (np_mean (map (\<lambda>ln. snd (run_view env ep ln)) names))
         (eval_scalars a
           (update_early_stopping (np_mean (map (\<lambda>ln. snd (run_view env ep ln)) names))
             (update_best_acc (top_k env score 1) ep (emit (map EvalView names) p))))))"
  using assms by (simp add: eval_def Let_def)

lemma eval_early_stopping:
  assumes "\<not> ep + 1 < arg_eval_start a"
    and "fuse_scores (map (\<lambda>ln. fst (run_view env ep ln)) names) = Inr score"
  shows "raised (eval env a ep ss names p) = None"
    and "best_loss_val (state_of (eval env a ep ss names p)) =
          (if np_mean (map (\<lambda>ln. snd (run_view env ep ln)) names) > best_loss_val p \<and> best_loss_val p \<noteq> - 1
           then best_loss_val p else np_mean (map (\<lambda>ln. snd (run_view env ep ln)) names))"
    and "counter_early_stopping (state_of (eval env a ep ss names p)) =
          (if np_mean (map (\<lambda>ln. snd (run_view env ep ln)) names) > best_loss_val p \<and> best_loss_val p \<noteq> - 1
           then counter_early_stopping p + 1 else 0)"
  unfolding eval_returns[OF assms]
  by (simp_all only: raised.simps state_of.simps eval_steps_frame update_early_stopping_fields)


text \<open>
  C7: the best accuracy never decreases, through an evaluation, through any stretch
  of the epoch loop and through a whole run. An evaluation that is not skipped
  returns, and with \<open>loss\<close> the mean of the views' losses: an unset best loss
  (\<open>- 1\<close>) adopts the loss and resets the counter; a loss that does not exceed the
  best loss is adopted and resets the counter; a loss above the best loss leaves the
  best loss alone and increments the counter by one.
\<close>

theorem eval_tracks_best_metrics:
  assumes "\<not> ep + 1 < arg_eval_start a"
    and "fuse_scores (map (\<lambda>ln. fst (run_view env ep ln)) names) = Inr score"
    and "loss = np_mean (map (\<lambda>ln. snd (run_view env ep ln)) names)"
  shows "best_acc p \<le> best_acc (state_of (eval env a ep save_score names p))
     \<and> best_acc q \<le> best_acc (state_of (epoch_loop env a epochs q))
     \<and> best_acc q \<le> best_acc (state_of (start env a q))
     \<and> raised (eval env a ep save_score names p) = None
     \<and> (best_loss_val p = - 1 \<longrightarrow>
          best_loss_val (state_of (eval env a ep save_score names p)) = loss
          \<and> counter_early_stopping (state_of (eval env a ep save_score names p)) = 0)
     \<and> (best_loss_val p \<noteq> - 1 \<and> loss \<le> best_loss_val p \<longrightarrow>
          best_loss_val (state_of (eval env a ep save_score names p)) = loss
          \<and> counter_early_stopping (state_of (eval env a ep save_score names p)) = 0)
     \<and> (best_loss_val p \<noteq> - 1 \<and> best_loss_val p < loss \<longrightarrow>
          best_loss_val (state_of (eval env a ep save_score names p)) = best_loss_val p
          \<and> counter_early_stopping (state_of (eval env a ep save_score names p))
              = counter_early_stopping p + 1)"
  using eval_best_acc_mono[of p env a ep save_score names]
    epoch_loop_best_acc_mono[of q env a epochs] start_best_acc_mono[of q env a]
    eval_early_stopping[OF assms(1,2), of save_score p]
  by (simp add: assms(3))

theorem eval_tracks_best_metrics_witness:
  "best_loss_val (state_of (eval toy_env toy_arg 0 False [''test_tta_0''] toy_processor)) = 1
   \<and> counter_early_stopping (state_of (eval toy_env toy_arg 0 False [''test_tta_0''] toy_processor)) = 0
   \<and> best_loss_val (state_of (eval toy_env toy_arg 0 False [''test_tta_0'']
         (toy_processor\<lparr>best_loss_val := 2, counter_early_stopping := 3\<rparr>))) = 1
   \<and> counter_early_stopping (state_of (eval toy_env toy_arg 0 False [''test_tta_0'']
         (toy_processor\<lparr>best_loss_val := 2, counter_early_stopping := 3\<rparr>))) = 0
   \<and> best_loss_val (state_of (eval toy_env toy_arg 0 False [''test_tta_0'']
         (toy_processor\<lparr>best_loss_val := 1 / 2, counter_early_stopping := 3\<rparr>))) = 1 / 2
   \<and> counter_early_stopping (state_of (eval toy_env toy_arg 0 False [''test_tta_0'']
         (toy_processor\<lparr>best_loss_val := 1 / 2, counter_early_stopping := 3\<rparr>))) = 4
   \<and> best_acc toy_processor \<le> best_acc (state_of (start toy_env toy_arg toy_processor))"
proof -
  have h1: "\<not> 0 + 1 < arg_eval_start toy_arg" by (simp add: toy_arg_def parser_defaults_def)
  have h2: "fuse_scores (map (\<lambda>ln. fst (run_view toy_env 0 ln)) [''test_tta_0'']) = Inr [[1, 0], [0, 1]]"
    by (simp add: toy_env_def fuse_scores_def np_zeros_def np_iadd_def broadcast_to_def)
  have h3: "1 = np_mean (map (\<lambda>ln. snd (run_view toy_env 0 ln)) [''test_tta_0''])"
    by (simp add: toy_env_def np_mean_def)
  note t = eval_tracks_best_metrics[OF h1 h2 h3, where save_score = False and q = toy_processor
      and epochs = "[]"]
  show ?thesis
    using t[where p = toy_processor]
      t[where p = "toy_processor\<lparr>best_loss_val := 2, counter_early_stopping := 3\<rparr>"]
      t[where p = "toy_processor\<lparr>best_loss_val := 1 / 2, counter_early_stopping := 3\<rparr>"]
    by (simp add: toy_processor_def)
qed

section \<open>Score fusion\<close>











lemma str_nat_0: "str_nat 0 = ''0''"
  by (simp add: str_nat.simps digit_char_def)




section \<open>Early stopping in the epoch loop\<close>

lemmas run_defs = start_def train_def train_batch_def train_scheduler_def train_save_def
  save_weights_def save_checkpoint_def save_states_def checkpoint_name_def emit_def eval_def
  fuse_scores_def np_zeros_def np_iadd_def broadcast_to_def np_mean_def update_best_acc_def
  update_early_stopping_def eval_scalars_def eval_scheduler_def eval_save_score_def Let_def
  upto_rec1 py_slice_def

lemma es_run:
  "(case start es_env es_arg toy_processor of
      Returned s \<Rightarrow> counter_early_stopping s = 3 \<and> best_loss_val s = 1
                      \<and> epochs_run (events s) = [1, 2, 3, 4]
    | Raised e s \<Rightarrow> False)"
  by (simp add: run_defs es_env_def es_arg_def toy_env_def toy_arg_def parser_defaults_def
      toy_processor_def epochs_run_def List.map_filter_simps)

lemma es_run3:
  "(case start es_env (es_arg\<lparr>arg_num_epoch := 3\<rparr>) toy_processor of
      Returned s \<Rightarrow> counter_early_stopping s = 2 \<and> best_loss_val s = 1
                      \<and> epochs_run (events s) = [1, 2, 3]
    | Raised e s \<Rightarrow> False)"
  by (simp add: run_defs es_env_def es_arg_def toy_env_def toy_arg_def parser_defaults_def
      toy_processor_def epochs_run_def List.map_filter_simps)

lemma epoch_loop_step:
  assumes "arg_save_interval a \<noteq> 0"
    and "train env a ep ((ep + 1) mod arg_save_interval a = 0 \<or> ep + 1 = arg_num_epoch a) p = Returned p1"
    and "eval env a ep (arg_save_score a) (lst_name_test_tta p1) p1 = Returned p2"
  shows "epoch_loop env a (ep # rest) p =
     (if 0 < arg_early_stopping a \<and> arg_early_stopping a < counter_early_stopping p2
      then Returned p2 else epoch_loop env a rest p2)"
  using assms by auto

lemma returned_state_of: "raised r = None \<Longrightarrow> r = Returned (state_of r)"
  by (cases r) simp_all

text \<open>
  C4 (as amended): after an epoch whose training and evaluation returned, the loop
  stops without running the remaining epochs when the early-stopping threshold is
  positive and the counter exceeds it, and goes on with the remaining epochs
  otherwise. In the scenario (threshold 2, losses 1.0, 1.2, 1.3, 1.1) the counter is
  2 after the third epoch, which does not exceed the threshold; the fourth epoch
  runs, the counter becomes 3 and the run stops there.
\<close>

theorem early_stopping_rule:
  assumes "arg_save_interval a \<noteq> 0"
    and "train env a ep ((ep + 1) mod arg_save_interval a = 0 \<or> ep + 1 = arg_num_epoch a) p = Returned p1"
    and "eval env a ep (arg_save_score a) (lst_name_test_tta p1) p1 = Returned p2"
  shows "(0 < arg_early_stopping a \<and> arg_early_stopping a < counter_early_stopping p2
            \<longrightarrow> epoch_loop env a (ep # rest) p = Returned p2)
       \<and> (\<not> (0 < arg_early_stopping a \<and> arg_early_stopping a < counter_early_stopping p2)
            \<longrightarrow> epoch_loop env a (ep # rest) p = epoch_loop env a rest p2)
       \<and> arg_early_stopping es_arg = 2
       \<and> map (\<lambda>ep. snd (run_view es_env ep ''test_tta_0'')) [0, 1, 2, 3] = [1, 12 / 10, 13 / 10, 11 / 10]
       \<and> counter_early_stopping (state_of (start es_env (es_arg\<lparr>arg_num_epoch := 3\<rparr>) toy_processor)) = 2
       \<and> raised (start es_env es_arg toy_processor) = None
       \<and> epochs_run (events (state_of (start es_env es_arg toy_processor))) = [1, 2, 3, 4]
       \<and> counter_early_stopping (state_of (start es_env es_arg toy_processor)) = 3"
proof -
  have a: "arg_early_stopping es_arg = 2"
    by (simp add: es_arg_def toy_arg_def parser_defaults_def)
  have b: "map (\<lambda>ep. snd (run_view es_env ep ''test_tta_0'')) [0, 1, 2, 3] = [1, 12 / 10, 13 / 10, 11 / 10]"
    by (simp add: es_env_def)
  have c: "counter_early_stopping (state_of (start es_env (es_arg\<lparr>arg_num_epoch := 3\<rparr>) toy_processor)) = 2"
    using es_run3 by (cases "start es_env (es_arg\<lparr>arg_num_epoch := 3\<rparr>) toy_processor") simp_all
  have d: "raised (start es_env es_arg toy_processor) = None
       \<and> epochs_run (events (state_of (start es_env es_arg toy_processor))) = [1, 2, 3, 4]
       \<and> counter_early_stopping (state_of (start es_env es_arg toy_processor)) = 3"
    using es_run by (cases "start es_env es_arg toy_processor") simp_all
  show ?thesis using epoch_loop_step[OF assms, of rest] a b c d by simp
qed

theorem early_stopping_rule_witness:
  "arg_save_interval es_arg \<noteq> 0
   \<and> 0 < arg_early_stopping es_arg
   \<and> counter_early_stopping
        (state_of (eval es_env es_arg 3 False [''test_tta_0'']
          (state_of (train es_env es_arg 3 True
            (toy_processor\<lparr>best_loss_val := 1, counter_early_stopping := 2\<rparr>))))) = 3
   \<and> epoch_loop es_env es_arg (3 # [4, 5])
         (toy_processor\<lparr>best_loss_val := 1, counter_early_stopping := 2\<rparr>)
       = Returned (state_of (eval es_env es_arg 3 False [''test_tta_0'']
          (state_of (train es_env es_arg 3 True
            (toy_processor\<lparr>best_loss_val := 1, counter_early_stopping := 2\<rparr>)))))"
proof -
  let ?p = "toy_processor\<lparr>best_loss_val := 1, counter_early_stopping := 2\<rparr>"
  let ?p1 = "state_of (train es_env es_arg 3 True ?p)"
  let ?p2 = "state_of (eval es_env es_arg 3 False [''test_tta_0''] ?p1)"
  have v: "arg_save_interval es_arg = 1" "arg_num_epoch es_arg = 10" "arg_early_stopping es_arg = 2"
    "arg_save_score es_arg = False"
    by (simp_all add: es_arg_def toy_arg_def parser_defaults_def)
  have h1: "arg_save_interval es_arg \<noteq> 0" by (simp add: v)
  have sm: "((3 + 1) mod arg_save_interval es_arg = 0 \<or> 3 + 1 = arg_num_epoch es_arg) = True"
    by (simp add: v)
  have t: "raised (train es_env es_arg 3 True ?p) = None
      \<and> lst_name_test_tta ?p1 = [''test_tta_0''] \<and> counter_early_stopping ?p1 = 2
      \<and> best_loss_val ?p1 = 1"
    by (simp add: run_defs es_env_def es_arg_def toy_env_def toy_arg_def parser_defaults_def
        toy_processor_def)
  have h2: "train es_env es_arg 3 ((3 + 1) mod arg_save_interval es_arg = 0 \<or> 3 + 1 = arg_num_epoch es_arg) ?p
      = Returned ?p1"
    unfolding sm using t by (simp add: returned_state_of)
  have f: "fuse_scores (map (\<lambda>ln. fst (run_view es_env 3 ln)) [''test_tta_0'']) = Inr [[1, 0], [0, 1]]"
    by (simp add: es_env_def toy_env_def fuse_scores_def np_zeros_def np_iadd_def broadcast_to_def)
  have g: "\<not> 3 + 1 < arg_eval_start es_arg" by (simp add: es_arg_def toy_arg_def parser_defaults_def)
  have l: "np_mean [snd (run_view es_env 3 ''test_tta_0'')] = 11 / 10"
    by (simp add: es_env_def np_mean_def)
  have e: "raised (eval es_env es_arg 3 False [''test_tta_0''] ?p1) = None"
    "counter_early_stopping ?p2 = 3"
    using eval_early_stopping[OF g f, of False ?p1] t by (auto simp: l)
  have h3: "eval es_env es_arg 3 (arg_save_score es_arg) (lst_name_test_tta ?p1) ?p1 = Returned ?p2"
    using e(1) t by (simp add: v returned_state_of)
  show ?thesis
    using early_stopping_rule[OF h1 h2 h3, of "[4, 5]"] e(2) by (simp add: v)
qed

text \<open>
  C4 as stated fails: in the scenario the fourth epoch is executed.
\<close>

theorem early_stopping_scenario_counterexample:
  "arg_early_stopping es_arg = 2
   \<and> map (\<lambda>ep. snd (run_view es_env ep ''test_tta_0'')) [0, 1, 2, 3] = [1, 12 / 10, 13 / 10, 11 / 10]
   \<and> 4 \<in> set (epochs_run (events (state_of (start es_env es_arg toy_processor))))"
proof -
  have "epochs_run (events (state_of (start es_env es_arg toy_processor))) = [1, 2, 3, 4]"
    using es_run by (cases "start es_env es_arg toy_processor") simp_all
  then show ?thesis by (simp add: es_arg_def toy_arg_def parser_defaults_def es_env_def)
qed

section \<open>Where the saves happen in an epoch\<close>

lemma train_micro_marks:
  "list_all (\<lambda>e. \<not> is_save e \<and> \<not> is_eval e) (train_micro data m k gs idx)"
  "count_list (train_micro data m k gs idx) OptimizerStep = 0"
  by (induction idx) (simp_all add: Let_def)

lemma train_batch_trace:
  assumes "train_batch env a data (q, n) = Returned (q', n')"
  shows "\<exists>ev. events q' = events q @ ev \<and> count_list ev OptimizerStep = 1
           \<and> list_all (\<lambda>e. \<not> is_save e \<and> \<not> is_eval e) ev
           \<and> lr_scheduler q' = lr_scheduler q"
proof -
  let ?m = "arg_forward_batch_size a"
  let ?k = "int (length data) div ?m"
  have c: "?m \<noteq> 0" "int (length data) mod ?m = 0"
    using assms by (auto simp: train_batch_def Let_def split: if_splits)
  let ?ev = "ZeroGrad # train_micro data ?m ?k (global_step q + 1) [0..?k - 1]
              @ [OptimizerStep, MetricScalar ''train'' ''lr'' (global_step q + 1)]"
  have "events q' = events q @ ?ev" "lr_scheduler q' = lr_scheduler q"
    using assms c by (auto simp: train_batch_def Let_def emit_def)
  moreover have "count_list ?ev OptimizerStep = 1" by (simp add: train_micro_marks)
  moreover have "list_all (\<lambda>e. \<not> is_save e \<and> \<not> is_eval e) ?ev" by (simp add: train_micro_marks)
  ultimately show ?thesis by blast
qed

lemma train_loop_trace:
  assumes "train_loop env a loader (q, n) = Returned (q', n')"
  shows "\<exists>ev. events q' = events q @ ev \<and> count_list ev OptimizerStep = length loader
           \<and> list_all (\<lambda>e. \<not> is_save e \<and> \<not> is_eval e) ev
           \<and> lr_scheduler q' = lr_scheduler q"
  using assms
proof (induction loader arbitrary: q n)
  case Nil
  then show ?case by simp
next
  case (Cons data rest)
  from Cons.prems obtain q1 n1 where
    b: "train_batch env a data (q, n) = Returned (q1, n1)"
    and r: "train_loop env a rest (q1, n1) = Returned (q', n')"
    by (cases "train_batch env a data (q, n)") auto
  from train_batch_trace[OF b] obtain ev1 where
    e1: "events q1 = events q @ ev1" "count_list ev1 OptimizerStep = 1"
      "list_all (\<lambda>e. \<not> is_save e \<and> \<not> is_eval e) ev1" "lr_scheduler q1 = lr_scheduler q"
    by blast
  from Cons.IH[OF r] obtain ev2 where
    e2: "events q' = events q1 @ ev2" "count_list ev2 OptimizerStep = length rest"
      "list_all (\<lambda>e. \<not> is_save e \<and> \<not> is_eval e) ev2" "lr_scheduler q' = lr_scheduler q1"
    by blast
  have "events q' = events q @ (ev1 @ ev2)" using e1(1) e2(1) by simp
  moreover have "count_list (ev1 @ ev2) OptimizerStep = length (data # rest)"
    using e1(2) e2(2) by simp
  moreover have "list_all (\<lambda>e. \<not> is_save e \<and> \<not> is_eval e) (ev1 @ ev2)" using e1(3) e2(3) by simp
  ultimately show ?case using e1(4) e2(4) by metis
qed

lemma events_emit: "events (emit es q) = events q @ es"
  by (simp add: emit_def)

lemma events_train_scheduler:
  "events (train_scheduler env a ep q) = events q @
     (if lr_scheduler q \<noteq> None \<and> arg_lr_scheduler a \<noteq> ''ReduceLROnPlateau'' \<and> arg_epoch_warn a \<le> ep
      then [SchedulerStep] else [])"
  by (cases "lr_scheduler q") (simp_all add: train_scheduler_def emit_def)

lemma events_eval_steps:
  "events (update_best_acc accuracy ep q) = events q"
  "events (update_early_stopping loss q) = events q"
  "events (eval_scalars a q) = events q @
     (if arg_phase a = ''train'' \<and> \<not> arg_debug a
      then [MetricScalar ''val'' ''loss'' (global_step q), MetricScalar ''val'' ''loss_l1'' (global_step q),
            MetricScalar ''val'' ''acc'' (global_step q)] else [])"
  "events (eval_save_score ep ss q) = events q @
     (if ss then [SaveScore (''epoch'' @ str_int (ep + 1) @ ''_test_score.pkl'')] else [])"
  by (simp_all add: update_best_acc_def update_early_stopping_def eval_scalars_def
      eval_save_score_def emit_def)

lemma events_eval_scheduler:
  "events (eval_scheduler env a loss q) = events q @
     (if lr_scheduler q \<noteq> None \<and> arg_lr_scheduler a = ''ReduceLROnPlateau''
      then [SchedulerStepLoss loss] else [])"
  by (cases "lr_scheduler q") (simp_all add: eval_scheduler_def emit_def)

lemma train_trace:
  assumes "train env a ep True p = Returned p1"
  shows "\<exists>pre. events p1 = events p @ pre
             @ [SaveStates ''weights'' (''weights-'' @ str_int (ep + 1) @ ''.pt''),
                SaveStates ''checkpoints'' (checkpoint_name a (ep + 1) (global_step p1))]
           \<and> count_list pre OptimizerStep = length (train_loader env ep)
           \<and> list_all (\<lambda>e. \<not> is_save e \<and> \<not> is_eval e) pre"
proof -
  let ?p0 = "emit [EpochScalar (ep + 1) (global_step p)] p"
  from assms obtain q n where
    l: "train_loop env a (train_loader env ep) (?p0, 0) = Returned (q, n)"
    and s: "train_save a ep True (train_scheduler env a ep q) = Returned p1"
    by (cases "train_loop env a (train_loader env ep) (?p0, 0)")
      (auto simp: train_def split: if_splits)
  from train_loop_trace[OF l] obtain ev where
    e: "events q = events ?p0 @ ev" "count_list ev OptimizerStep = length (train_loader env ep)"
      "list_all (\<lambda>e. \<not> is_save e \<and> \<not> is_eval e) ev"
    by blast
  let ?q1 = "train_scheduler env a ep q"
  define sv where "sv = (if lr_scheduler q \<noteq> None \<and> arg_lr_scheduler a \<noteq> ''ReduceLROnPlateau''
      \<and> arg_epoch_warn a \<le> ep then [SchedulerStep] else [] :: 'a event list)"
  have sv: "events ?q1 = events q @ sv" "sv = [] \<or> sv = [SchedulerStep]"
    by (simp_all add: events_train_scheduler sv_def)
  obtain sch where sch: "lr_scheduler ?q1 = Some sch"
    using s by (cases "lr_scheduler ?q1")
      (auto simp: train_save_def save_weights_def save_checkpoint_def save_states_def emit_def)
  have p1: "events p1 = events ?q1 @ [SaveStates ''weights'' (''weights-'' @ str_int (ep + 1) @ ''.pt''),
                SaveStates ''checkpoints'' (checkpoint_name a (ep + 1) (global_step p1))]"
    using s sch
    by (auto simp: train_save_def save_weights_def save_checkpoint_def save_states_def emit_def)
  let ?pre = "EpochScalar (ep + 1) (global_step p) # ev @ sv"
  have "events p1 = events p @ ?pre @ [SaveStates ''weights'' (''weights-'' @ str_int (ep + 1) @ ''.pt''),
                SaveStates ''checkpoints'' (checkpoint_name a (ep + 1) (global_step p1))]"
    using p1 sv(1) e(1) by (simp add: emit_def)
  moreover have "count_list ?pre OptimizerStep = length (train_loader env ep)"
    using e(2) sv(2) by auto
  moreover have "list_all (\<lambda>e. \<not> is_save e \<and> \<not> is_eval e) ?pre"
    using e(3) sv(2) by auto
  ultimately show ?thesis by blast
qed

lemma eval_trace:
  assumes "eval env a ep ss names p1 = Returned p2"
  shows "\<exists>post. events p2 = events p1 @ post
           \<and> list_all (\<lambda>e. \<not> is_update e \<and> \<not> is_save e) post
           \<and> (\<not> ep + 1 < arg_eval_start a \<longrightarrow> take (length names) post = map EvalView names)"
proof (cases "ep + 1 < arg_eval_start a")
  case True
  then have "p2 = p1" using assms by (simp add: eval_def)
  then show ?thesis using True by simp
next
  case False
  from assms False obtain score where
    f: "fuse_scores (map (\<lambda>ln. fst (run_view env ep ln)) names) = Inr score"
    by (cases "fuse_scores (map (\<lambda>ln. fst (run_view env ep ln)) names)")
      (auto simp: eval_def Let_def)
  let ?loss = "np_mean (map (\<lambda>ln. snd (run_view env ep ln)) names)"
  let ?q1 = "update_early_stopping ?loss (update_best_acc (top_k env score 1) ep (emit (map EvalView names) p1))"
  let ?q2 = "eval_scalars a ?q1"
  let ?a = "if arg_phase a = ''train'' \<and> \<not> arg_debug a
            then [MetricScalar ''val'' ''loss'' (global_step ?q1),
                  MetricScalar ''val'' ''loss_l1'' (global_step ?q1),
                  MetricScalar ''val'' ''acc'' (global_step ?q1)] else []"
  let ?b = "if lr_scheduler ?q2 \<noteq> None \<and> arg_lr_scheduler a = ''ReduceLROnPlateau''
            then [SchedulerStepLoss ?loss] else []"
  let ?c = "if ss then [SaveScore (''epoch'' @ str_int (ep + 1) @ ''_test_score.pkl'')] else []"
  have p2: "p2 = eval_save_score ep ss (eval_scheduler env a ?loss ?q2)"
    using assms unfolding eval_returns[OF False f] by simp
  have "events p2 = events p1 @ (map EvalView names @ ?a @ ?b @ ?c)"
    unfolding p2 by (simp only: events_eval_steps events_eval_scheduler events_emit append_assoc)
  moreover have "list_all (\<lambda>e. \<not> is_update e \<and> \<not> is_save e) (map EvalView names @ ?a @ ?b @ ?c)"
    by (auto simp: list_all_iff)
  moreover have "take (length names) (map EvalView names @ ?a @ ?b @ ?c) = map EvalView names"
    by simp
  ultimately show ?thesis by blast
qed


lemma one_epoch_run:
  "start es_env one_epoch_arg toy_processor =
     Returned (toy_processor
       \<lparr>optimizer := 1, lr_scheduler := Some 1, global_step := 1, best_acc := 1 / 2,
        best_acc_epoch := 1, best_loss_val := 1,
        events := [EpochScalar 1 0, ZeroGrad, Forward [1, 2], Backward 1,
          MetricScalar ''train'' ''acc'' 1, MetricScalar ''train'' ''loss'' 1,
          MetricScalar ''train'' ''loss_l1'' 1, OptimizerStep, MetricScalar ''train'' ''lr'' 1,
          SchedulerStep, SaveStates ''weights'' ''weights-1.pt'',
          SaveStates ''checkpoints'' ''checkpoint-1-fwbz2-1.pt'', EvalView ''test_tta_0'',
          MetricScalar ''val'' ''loss'' 1, MetricScalar ''val'' ''loss_l1'' 1,
          MetricScalar ''val'' ''acc'' 1]\<rparr>)"
  by (simp add: run_defs es_env_def one_epoch_arg_def toy_env_def toy_arg_def parser_defaults_def
      toy_processor_def str_int_def str_nat.simps digit_char_def py_int_def)

text \<open>
  C6 (as amended): in an epoch in which persistence is due and whose training and
  evaluation return, the weights and the checkpoint are written at the end of
  \<^verbatim>\<open>train\<close>: after every optimizer step of the epoch (one for each
  macro-batch) and never between two of them, and before the evaluation of that
  epoch, whose events (the views first) all come after the two writes and contain
  no parameter update and no write.
\<close>

theorem saves_between_training_and_evaluation:
  assumes "arg_save_interval a \<noteq> 0"
    and "(ep + 1) mod arg_save_interval a = 0 \<or> ep + 1 = arg_num_epoch a"
    and "train env a ep True p = Returned p1"
    and "eval env a ep (arg_save_score a) (lst_name_test_tta p1) p1 = Returned p2"
  shows "epoch_loop env a [ep] p = Returned p2
     \<and> (\<exists>pre post.
           events p2 = events p @ pre
             @ [SaveStates ''weights'' (''weights-'' @ str_int (ep + 1) @ ''.pt''),
                SaveStates ''checkpoints'' (checkpoint_name a (ep + 1) (global_step p1))]
             @ post
         \<and> count_list pre OptimizerStep = length (train_loader env ep)
         \<and> list_all (\<lambda>e. \<not> is_save e \<and> \<not> is_eval e) pre
         \<and> list_all (\<lambda>e. \<not> is_update e \<and> \<not> is_save e) post
         \<and> (\<not> ep + 1 < arg_eval_start a \<longrightarrow>
               take (length (lst_name_test_tta p1)) post = map EvalView (lst_name_test_tta p1)))"
proof -
  have sm: "((ep + 1) mod arg_save_interval a = 0 \<or> ep + 1 = arg_num_epoch a) = True"
    using assms(2) by simp
  have l: "epoch_loop env a [ep] p = Returned p2"
    using assms(1,3,4) by (simp add: sm)
  from train_trace[OF assms(3)] obtain pre where
    t: "events p1 = events p @ pre
             @ [SaveStates ''weights'' (''weights-'' @ str_int (ep + 1) @ ''.pt''),
                SaveStates ''checkpoints'' (checkpoint_name a (ep + 1) (global_step p1))]"
      "count_list pre OptimizerStep = length (train_loader env ep)"
      "list_all (\<lambda>e. \<not> is_save e \<and> \<not> is_eval e) pre"
    by blast
  from eval_trace[OF assms(4)] obtain post where
    e: "events p2 = events p1 @ post"
      "list_all (\<lambda>e. \<not> is_update e \<and> \<not> is_save e) post"
      "\<not> ep + 1 < arg_eval_start a \<longrightarrow>
         take (length (lst_name_test_tta p1)) post = map EvalView (lst_name_test_tta p1)"
    by blast
  have "events p2 = events p @ pre
             @ [SaveStates ''weights'' (''weights-'' @ str_int (ep + 1) @ ''.pt''),
                SaveStates ''checkpoints'' (checkpoint_name a (ep + 1) (global_step p1))]
             @ post"
    using t(1) e(1) by simp
  then show ?thesis using l t(2,3) e(2,3) by blast
qed

theorem saves_between_training_and_evaluation_witness:
  "arg_save_interval one_epoch_arg \<noteq> 0
   \<and> 0 + 1 = arg_num_epoch one_epoch_arg
   \<and> raised (train es_env one_epoch_arg 0 True toy_processor) = None
   \<and> epoch_loop es_env one_epoch_arg [0] toy_processor =
       Returned (state_of (eval es_env one_epoch_arg 0 False [''test_tta_0'']
         (state_of (train es_env one_epoch_arg 0 True toy_processor))))
   \<and> (\<exists>pre post.
         events (state_of (eval es_env one_epoch_arg 0 False [''test_tta_0'']
           (state_of (train es_env one_epoch_arg 0 True toy_processor))))
         = events toy_processor @ pre
             @ [SaveStates ''weights'' (''weights-'' @ str_int (0 + 1) @ ''.pt''),
                SaveStates ''checkpoints'' (checkpoint_name one_epoch_arg (0 + 1)
                  (global_step (state_of (train es_env one_epoch_arg 0 True toy_processor))))]
             @ post
         \<and> count_list pre OptimizerStep = length (train_loader es_env 0)
         \<and> list_all (\<lambda>e. \<not> is_save e \<and> \<not> is_eval e) pre
         \<and> list_all (\<lambda>e. \<not> is_update e \<and> \<not> is_save e) post
         \<and> take (length [''test_tta_0'']) post = map EvalView [''test_tta_0''])"
proof -
  let ?p1 = "state_of (train es_env one_epoch_arg 0 True toy_processor)"
  let ?p2 = "state_of (eval es_env one_epoch_arg 0 False [''test_tta_0''] ?p1)"
  have v: "arg_save_interval one_epoch_arg = 1" "arg_num_epoch one_epoch_arg = 1"
    "arg_save_score one_epoch_arg = False" "arg_eval_start one_epoch_arg = 1"
    by (simp_all add: one_epoch_arg_def toy_arg_def parser_defaults_def)
  have h1: "arg_save_interval one_epoch_arg \<noteq> 0" by (simp add: v)
  have h2: "(0 + 1) mod arg_save_interval one_epoch_arg = 0 \<or> 0 + 1 = arg_num_epoch one_epoch_arg"
    by (simp add: v)
  have t: "raised (train es_env one_epoch_arg 0 True toy_processor) = None
      \<and> lst_name_test_tta ?p1 = [''test_tta_0'']"
    by (simp add: run_defs es_env_def one_epoch_arg_def toy_env_def toy_arg_def parser_defaults_def
        toy_processor_def)
  have h3: "train es_env one_epoch_arg 0 True toy_processor = Returned ?p1"
    using t by (simp add: returned_state_of)
  have f: "fuse_scores (map (\<lambda>ln. fst (run_view es_env 0 ln)) [''test_tta_0'']) = Inr [[1, 0], [0, 1]]"
    by (simp add: es_env_def toy_env_def fuse_scores_def np_zeros_def np_iadd_def broadcast_to_def)
  have g: "\<not> 0 + 1 < arg_eval_start one_epoch_arg" by (simp add: v)
  have e: "raised (eval es_env one_epoch_arg 0 False [''test_tta_0''] ?p1) = None"
    by (rule eval_early_stopping(1)[OF g f])
  have h4: "eval es_env one_epoch_arg 0 (arg_save_score one_epoch_arg) (lst_name_test_tta ?p1) ?p1
      = Returned ?p2"
    using e t by (simp add: v returned_state_of)
  show ?thesis
    using h1 t g saves_between_training_and_evaluation[OF h1 h2 h3 h4]
    by (simp add: v t)
qed

text \<open>
  C6 as stated fails: in a run of one epoch both files are written before the view
  is evaluated.
\<close>

theorem saves_precede_evaluation_counterexample:
  "events (state_of (start es_env one_epoch_arg toy_processor)) =
     [EpochScalar 1 0, ZeroGrad, Forward [1, 2], Backward 1,
      MetricScalar ''train'' ''acc'' 1, MetricScalar ''train'' ''loss'' 1,
      MetricScalar ''train'' ''loss_l1'' 1, OptimizerStep, MetricScalar ''train'' ''lr'' 1,
      SchedulerStep, SaveStates ''weights'' ''weights-1.pt'',
      SaveStates ''checkpoints'' ''checkpoint-1-fwbz2-1.pt'', EvalView ''test_tta_0'',
      MetricScalar ''val'' ''loss'' 1, MetricScalar ''val'' ''loss_l1'' 1,
      MetricScalar ''val'' ''acc'' 1]"
  unfolding one_epoch_run by simp

section \<open>Restoring weights\<close>

lemma copy_matching_keys: "map fst (copy_matching st sd) = map fst st"
  by (induction st) (auto simp: copy_matching_def split: option.splits)

lemma copy_matching_lookup:
  "map_of (copy_matching st sd) k =
     (case map_of st k of
        None \<Rightarrow> None
      | Some t \<Rightarrow>
          (case map_of sd k of
             None \<Rightarrow> Some t
           | Some t' \<Rightarrow> if shape t' = shape t then Some t' else Some t))"
proof (induction st)
  case Nil
  show ?case by (simp add: copy_matching_def)
next
  case (Cons kt st)
  have c: "copy_matching (kt # st) sd =
      (case map_of sd (fst kt) of None \<Rightarrow> kt
       | Some t' \<Rightarrow> if shape t' = shape (snd kt) then (fst kt, t') else kt) # copy_matching st sd"
    by (simp add: copy_matching_def)
  show ?case
  proof (cases "k = fst kt")
    case True
    then show ?thesis unfolding c by (cases kt) (simp split: option.splits)
  next
    case False
    then show ?thesis unfolding c using Cons.IH by (cases kt) (simp split: option.splits)
  qed
qed

lemma size_mismatch_empty:
  assumes "size_mismatch st sd = []" "map_of st k = Some t" "map_of sd k = Some t'"
  shows "shape t' = shape t"
proof -
  have "(k, t) \<in> set st" using assms(2) by (rule map_of_SomeD)
  moreover have "\<forall>kt \<in> set st. \<not> (case map_of sd (fst kt) of None \<Rightarrow> False
      | Some t' \<Rightarrow> shape t' \<noteq> shape (snd kt))"
    using assms(1) by (simp add: size_mismatch_def filter_empty_conv)
  ultimately show ?thesis using assms(3) by fastforce
qed

lemma restore_weights_compatible:
  assumes "size_mismatch st weights = []"
  shows "restore_weights st weights = Returned (copy_matching st weights, [])"
  using assms by (simp add: restore_weights_def load_state_dict_def)


lemma strip_fc_weight: "strip_module ''module.fc.weight'' = ''fc.weight''"
  by (simp add: strip_module_def split_last.simps)

text \<open>
  The case in which the code does restore weights partially: no tensor of the
  snapshot has another shape than the model's tensor of that name. The first load,
  which is not strict, then returns with nothing logged: the model keeps its names,
  every parameter the snapshot does not name is unchanged, and every parameter it
  names is the snapshot's tensor.
\<close>

lemma restore_weights_partial:
  fixes env :: "('x, 'o, 'l) env"
  assumes "size_mismatch st weights = []"
    and "arg_weights a = Some w"
    and "w \<noteq> []"
    and "torch_load_weights env w = Inr raw"
    and "weights = fst (remove_ignored (arg_ignore_weights a)
           (ordered_dict (map (\<lambda>kv. (strip_module (fst kv), snd kv)) raw))
           :: state_dict \<times> 'x event list)"
    and "st = new_model env"
  shows "restore_weights st weights = Returned (copy_matching st weights, ([] :: 'x event list))
     \<and> (\<exists>gs logs. load_model env a = Inr (copy_matching st weights, gs, logs))
     \<and> map fst (copy_matching st weights) = map fst st
     \<and> (map_of st k = Some t \<and> map_of weights k = None
           \<longrightarrow> map_of (copy_matching st weights) k = Some t)
     \<and> (map_of st k = Some t \<and> map_of weights k = Some t'
           \<longrightarrow> map_of (copy_matching st weights) k = Some t')"
proof -
  have r: "restore_weights st weights = Returned (copy_matching st weights, ([] :: 'x event list))"
    by (rule restore_weights_compatible[OF assms(1)])
  have "\<exists>gs logs. load_model env a = Inr (copy_matching st weights, gs, logs)"
    using r assms(2-6) by (simp add: load_model_def Let_def)
  moreover have "map_of st k = Some t \<and> map_of weights k = Some t'
      \<longrightarrow> map_of (copy_matching st weights) k = Some t'"
    using size_mismatch_empty[OF assms(1), of k t t'] by (simp add: copy_matching_lookup)
  ultimately show ?thesis using r by (simp add: copy_matching_keys copy_matching_lookup)
qed

lemma restore_weights_partial_example:
  "size_mismatch (new_model toy_env) [(''fc.weight'', Tensor [2] [5, 6])] = []
   \<and> restore_weights (new_model toy_env) [(''fc.weight'', Tensor [2] [5, 6])]
       = Returned ([(''fc.weight'', Tensor [2] [5, 6]), (''fc.bias'', Tensor [1] [0])],
                   ([] :: nat event list))
   \<and> (\<exists>gs logs. load_model toy_env weights_arg
         = Inr ([(''fc.weight'', Tensor [2] [5, 6]), (''fc.bias'', Tensor [1] [0])], gs, logs))
   \<and> map_of (copy_matching (new_model toy_env) [(''fc.weight'', Tensor [2] [5, 6])]) ''fc.bias''
       = Some (Tensor [1] [0])"
proof -
  let ?w = "[(''fc.weight'', Tensor [2] [5, 6])]"
  have m: "new_model toy_env = [(''fc.weight'', Tensor [2] [0, 0]), (''fc.bias'', Tensor [1] [0])]"
    by (simp add: toy_env_def)
  have h1: "size_mismatch (new_model toy_env) ?w = []" by (simp add: m size_mismatch_def)
  have h2: "arg_weights weights_arg = Some ''runs/weights-7.pt''" by (simp add: weights_arg_def)
  have h3: "''runs/weights-7.pt'' \<noteq> []" by simp
  have h4: "torch_load_weights toy_env ''runs/weights-7.pt''
      = Inr [(''module.fc.weight'', Tensor [2] [5, 6])]"
    by (simp add: toy_env_def)
  have h5: "?w = fst (remove_ignored (arg_ignore_weights weights_arg)
      (ordered_dict (map (\<lambda>kv. (strip_module (fst kv), snd kv))
         [(''module.fc.weight'', Tensor [2] [5, 6])])) :: state_dict \<times> nat event list)"
    by (simp add: weights_arg_def toy_arg_def parser_defaults_def ordered_dict_def strip_fc_weight)
  have c: "copy_matching (new_model toy_env) ?w
      = [(''fc.weight'', Tensor [2] [5, 6]), (''fc.bias'', Tensor [1] [0])]"
    by (simp add: m copy_matching_def)
  show ?thesis
    using h1 restore_weights_partial[OF h1 h2 h3 h4 h5 refl, of "''fc.bias''" "Tensor [1] [0]"]
    unfolding c by simp
qed

text \<open>
  The case of a shape mismatch. The first load raises; the handler merges the whole
  snapshot into the model's state dict, the mismatching tensor with it, and loads
  that dict strictly, so the second load raises as well: for every snapshot (an
  \<^verbatim>\<open>OrderedDict\<close>, its keys distinct) with a tensor of another shape than the
  model's, the restore raises RuntimeError.
\<close>

lemma dict_update_lookup:
  assumes "distinct (map fst other)"
  shows "map_of (dict_update d other) k =
     (case map_of other k of None \<Rightarrow> map_of d k | Some v \<Rightarrow> Some v)"
  using assms unfolding dict_update_def
proof (induction other arbitrary: d)
  case Nil
  show ?case by simp
next
  case (Cons kv rest)
  obtain k0 v0 where kv: "kv = (k0, v0)" by (cases kv)
  have d: "distinct (map fst rest)" and n: "k0 \<notin> fst ` set rest" using Cons.prems kv by simp_all
  have ih: "map_of (fold (\<lambda>kv d'. AList.update (fst kv) (snd kv) d') rest (AList.update k0 v0 d)) k
      = (case map_of rest k of None \<Rightarrow> map_of (AList.update k0 v0 d) k | Some v \<Rightarrow> Some v)"
    by (rule Cons.IH[OF d])
  show ?case
  proof (cases "k = k0")
    case True
    then have "map_of rest k = None" using n by (simp add: map_of_eq_None_iff)
    then show ?thesis using ih True by (simp add: kv update_conv')
  next
    case False
    then show ?thesis using ih by (simp add: kv update_conv' split: option.splits)
  qed
qed

lemma copy_matching_keeps_mismatch:
  assumes "(k, t) \<in> set st" "map_of sd k = Some t'" "shape t' \<noteq> shape t"
  shows "(k, t) \<in> set (copy_matching st sd)"
proof -
  let ?f = "\<lambda>kt. case map_of sd (fst kt) of None \<Rightarrow> kt
      | Some t' \<Rightarrow> if shape t' = shape (snd kt) then (fst kt, t') else kt"
  have e: "?f (k, t) = (k, t)" using assms(2,3) by simp
  have "?f (k, t) \<in> ?f ` set st" using assms(1) by (rule imageI)
  then have "(k, t) \<in> ?f ` set st" unfolding e .
  then show ?thesis unfolding copy_matching_def set_map .
qed

lemma size_mismatch_witness:
  assumes "(k, t) \<in> set st" "map_of sd k = Some t'" "shape t' \<noteq> shape t"
  shows "size_mismatch st sd \<noteq> []"
proof -
  have "(k, t) \<in> set (filter (\<lambda>kt. case map_of sd (fst kt) of None \<Rightarrow> False
      | Some t' \<Rightarrow> shape t' \<noteq> shape (snd kt)) st)"
    using assms by simp
  then have "filter (\<lambda>kt. case map_of sd (fst kt) of None \<Rightarrow> False
      | Some t' \<Rightarrow> shape t' \<noteq> shape (snd kt)) st \<noteq> []"
    by (metis empty_iff empty_set)
  then show ?thesis by (simp add: size_mismatch_def)
qed

lemma size_mismatch_obtain:
  assumes "size_mismatch st sd \<noteq> []"
  obtains k t t' where "(k, t) \<in> set st" "map_of sd k = Some t'" "shape t' \<noteq> shape t"
proof -
  from assms obtain kt where kt: "kt \<in> set st"
    "(case map_of sd (fst kt) of None \<Rightarrow> False | Some t' \<Rightarrow> shape t' \<noteq> shape (snd kt))"
    by (auto simp: size_mismatch_def filter_empty_conv)
  then obtain t' where "map_of sd (fst kt) = Some t'" "shape t' \<noteq> shape (snd kt)"
    by (cases "map_of sd (fst kt)") simp_all
  moreover have "(fst kt, snd kt) \<in> set st" using kt(1) by simp
  ultimately show ?thesis using that by blast
qed

lemma restore_weights_mismatch_raises:
  assumes "size_mismatch st weights \<noteq> []" "distinct (map fst weights)"
  shows "raised (restore_weights st weights) = Some RuntimeError"
proof -
  from size_mismatch_obtain[OF assms(1)] obtain k t t' where
    m: "(k, t) \<in> set st" "map_of weights k = Some t'" "shape t' \<noteq> shape t"
    by blast
  let ?st = "copy_matching st weights"
  let ?state = "dict_update ?st weights"
  have f: "load_state_dict st weights False = Raised RuntimeError ?st"
    using assms(1) by (simp add: load_state_dict_def)
  have a: "(k, t) \<in> set ?st" by (rule copy_matching_keeps_mismatch[OF m])
  have b: "map_of ?state k = Some t'"
    using m(2) by (simp add: dict_update_lookup[OF assms(2)])
  have "size_mismatch ?st ?state \<noteq> []" by (rule size_mismatch_witness[OF a b m(3)])
  then have s: "load_state_dict ?st ?state True = Raised RuntimeError (copy_matching ?st ?state)"
    by (simp add: load_state_dict_def)
  show ?thesis unfolding restore_weights_def f Let_def by (simp add: s)
qed

text \<open>
  C5: the code does not do what the claim says, on the claim's own example of a
  changed classification head. The snapshot's \<^verbatim>\<open>fc.weight\<close> has shape 3 where
  the model's has shape 2: the first load raises, the handler logs the name the
  snapshot lacks, and its strict load of the merged state dict raises RuntimeError
  out of \<^verbatim>\<open>load_model\<close>, where the claim, the handler's comment and its last
  log line announce a partial load that does not raise.
\<close>

theorem load_model_raises_on_changed_head:
  "restore_weights [(''fc.weight'', Tensor [2] [0, 0]), (''fc.bias'', Tensor [1] [0])]
       [(''fc.weight'', Tensor [3] [5, 6, 7])]
     = Raised RuntimeError
         ([(''fc.weight'', Tensor [2] [0, 0]), (''fc.bias'', Tensor [1] [0])],
          [PrintLog ''Error loading weights'', PrintLog ''Cannot find these weights:'',
           PrintLog ''  fc.bias'' :: nat event])
   \<and> load_model mismatch_env weights_arg = Inl RuntimeError"
proof -
  let ?st = "[(''fc.weight'', Tensor [2] [0, 0]), (''fc.bias'', Tensor [1] [0])]"
  let ?w = "[(''fc.weight'', Tensor [3] [5, 6, 7])]"
  have c: "copy_matching ?st ?w = ?st" by (simp add: copy_matching_def)
  have f: "load_state_dict ?st ?w False = Raised RuntimeError ?st"
    unfolding load_state_dict_def c by (simp add: size_mismatch_def)
  have u: "dict_update ?st ?w = [(''fc.weight'', Tensor [3] [5, 6, 7]), (''fc.bias'', Tensor [1] [0])]"
    by (simp add: dict_update_def)
  have c2: "copy_matching ?st [(''fc.weight'', Tensor [3] [5, 6, 7]), (''fc.bias'', Tensor [1] [0])] = ?st"
    by (simp add: copy_matching_def)
  have s: "load_state_dict ?st [(''fc.weight'', Tensor [3] [5, 6, 7]), (''fc.bias'', Tensor [1] [0])] True
      = Raised RuntimeError ?st"
    unfolding load_state_dict_def c2 by (simp add: size_mismatch_def)
  have r: "restore_weights ?st ?w = Raised RuntimeError (?st,
          [PrintLog ''Error loading weights'', PrintLog ''Cannot find these weights:'',
           PrintLog ''  fc.bias'' :: nat event])"
    unfolding restore_weights_def f outcome.case Let_def u s by simp
  have w: "fst (remove_ignored (arg_ignore_weights weights_arg)
      (ordered_dict [(strip_module ''module.fc.weight'', Tensor [3] [5, 6, 7])])
        :: state_dict \<times> nat event list) = ?w"
    by (simp add: weights_arg_def toy_arg_def parser_defaults_def ordered_dict_def strip_fc_weight)
  have e: "arg_weights weights_arg = Some ''runs/weights-7.pt''"
    "torch_load_weights mismatch_env ''runs/weights-7.pt'' = Inr [(''module.fc.weight'', Tensor [3] [5, 6, 7])]"
    "new_model mismatch_env = ?st"
    by (simp_all add: weights_arg_def mismatch_env_def toy_env_def)
  have l: "load_model mismatch_env weights_arg = Inl RuntimeError"
    by (simp add: load_model_def e w r Let_def del: One_nat_def)
  show ?thesis using r l by simp
qed

section \<open>Traces only grow, and start with the epoch scalar\<close>

lemma train_batch_grows:
  "\<exists>ev. events (fst (state_of (train_batch env a data pn))) = events (fst pn) @ ev"
  by (simp add: train_batch_def Let_def emit_def)

lemma train_loop_grows:
  "\<exists>ev. events (fst (state_of (train_loop env a loader pn))) = events (fst pn) @ ev"
proof (induction loader arbitrary: pn)
  case Nil
  show ?case by simp
next
  case (Cons data rest)
  obtain ev1 where e1: "events (fst (state_of (train_batch env a data pn))) = events (fst pn) @ ev1"
    using train_batch_grows by blast
  show ?case
  proof (cases "train_batch env a data pn")
    case (Raised e pn')
    then show ?thesis using e1 by simp
  next
    case (Returned pn')
    obtain ev2 where "events (fst (state_of (train_loop env a rest pn'))) = events (fst pn') @ ev2"
      using Cons.IH by blast
    then show ?thesis using e1 Returned by simp
  qed
qed

lemma train_save_grows: "\<exists>ev. events (state_of (train_save a ep sm q)) = events q @ ev"
  by (cases "lr_scheduler q")
    (simp_all add: train_save_def save_weights_def save_checkpoint_def save_states_def emit_def)

lemma train_grows:
  "\<exists>ev. events (state_of (train env a ep sm p)) = events p @ EpochScalar (ep + 1) (global_step p) # ev"
proof -
  let ?p0 = "emit [EpochScalar (ep + 1) (global_step p)] p"
  obtain ev where e: "events (fst (state_of (train_loop env a (train_loader env ep) (?p0, 0))))
      = events ?p0 @ ev"
    using train_loop_grows[of env a "train_loader env ep" "(?p0, 0)"] by auto
  show ?thesis
  proof (cases "train_loop env a (train_loader env ep) (?p0, 0)")
    case (Raised err pn)
    then show ?thesis using e by (simp add: train_def emit_def)
  next
    case (Returned pn)
    obtain ev2 where e2: "events (state_of (train_save a ep sm (train_scheduler env a ep (fst pn))))
        = events (train_scheduler env a ep (fst pn)) @ ev2"
      using train_save_grows by blast
    have "\<exists>ev3. events (state_of (train env a ep sm p)) = events (fst pn) @ ev3"
      using Returned e2 by (simp add: train_def events_train_scheduler)
    then show ?thesis using e Returned by (auto simp: emit_def)
  qed
qed

lemma eval_grows: "\<exists>ev. events (state_of (eval env a ep ss names p)) = events p @ ev"
proof (cases "eval env a ep ss names p")
  case (Returned p2)
  then show ?thesis using eval_trace[OF Returned] by auto
next
  case (Raised e p2)
  then have "p2 = emit (map EvalView names) p"
    by (auto simp: eval_def Let_def split: if_splits sum.splits)
  then show ?thesis using Raised by (simp add: emit_def)
qed

lemma epoch_loop_grows: "\<exists>ev. events (state_of (epoch_loop env a eps p)) = events p @ ev"
proof (induction eps arbitrary: p)
  case Nil
  show ?case by simp
next
  case (Cons ep rest)
  let ?sm = "(ep + 1) mod arg_save_interval a = 0 \<or> ep + 1 = arg_num_epoch a"
  show ?case
  proof (cases "arg_save_interval a = 0")
    case True
    then show ?thesis by simp
  next
    case False
    obtain ev1 where e1: "events (state_of (train env a ep ?sm p)) = events p @ ev1"
      using train_grows[of env a ep ?sm p] by auto
    show ?thesis
    proof (cases "train env a ep ?sm p")
      case (Raised e p1)
      then show ?thesis using False e1 by simp
    next
      case (Returned p1)
      obtain ev2 where e2: "events (state_of (eval env a ep (arg_save_score a) (lst_name_test_tta p1) p1))
          = events p1 @ ev2"
        using eval_grows by blast
      show ?thesis
      proof (cases "eval env a ep (arg_save_score a) (lst_name_test_tta p1) p1")
        case (Raised e p2)
        then show ?thesis using False Returned e1 e2 by simp
      next
        case r2: (Returned p2)
        obtain ev3 where "events (state_of (epoch_loop env a rest p2)) = events p2 @ ev3"
          using Cons.IH by blast
        then show ?thesis using False Returned r2 e1 e2 by simp
      qed
    qed
  qed
qed

lemma epoch_loop_first:
  assumes "arg_save_interval a \<noteq> 0"
  shows "\<exists>ev. events (state_of (epoch_loop env a (ep # rest) p))
           = events p @ EpochScalar (ep + 1) (global_step p) # ev"
proof -
  let ?sm = "(ep + 1) mod arg_save_interval a = 0 \<or> ep + 1 = arg_num_epoch a"
  obtain ev1 where e1: "events (state_of (train env a ep ?sm p))
      = events p @ EpochScalar (ep + 1) (global_step p) # ev1"
    using train_grows by blast
  show ?thesis
  proof (cases "train env a ep ?sm p")
    case (Raised e p1)
    then show ?thesis using assms e1 by simp
  next
    case (Returned p1)
    obtain ev2 where e2: "events (state_of (eval env a ep (arg_save_score a) (lst_name_test_tta p1) p1))
        = events p1 @ ev2"
      using eval_grows by blast
    show ?thesis
    proof (cases "eval env a ep (arg_save_score a) (lst_name_test_tta p1) p1")
      case (Raised e p2)
      then show ?thesis using assms Returned e1 e2 by simp
    next
      case r2: (Returned p2)
      obtain ev3 where "events (state_of (epoch_loop env a rest p2)) = events p2 @ ev3"
        using epoch_loop_grows by blast
      then show ?thesis using assms Returned r2 e1 e2 by simp
    qed
  qed
qed

lemma start_first:
  assumes "arg_phase a = ''train''" "arg_batch_size a \<noteq> 0" "arg_save_interval a \<noteq> 0"
    "arg_start_epoch a < arg_num_epoch a"
  shows "\<exists>ev. events (state_of (start env a p))
           = events p @ EpochScalar (arg_start_epoch a + 1)
               (real_of_int (arg_start_epoch a * len_train_loader env) / real_of_int (arg_batch_size a)) # ev"
proof -
  have u: "[arg_start_epoch a..arg_num_epoch a - 1]
      = arg_start_epoch a # [arg_start_epoch a + 1..arg_num_epoch a - 1]"
    using assms(4) by (simp add: upto_rec1)
  let ?p0 = "p\<lparr>global_step := real_of_int (arg_start_epoch a * len_train_loader env)
      / real_of_int (arg_batch_size a)\<rparr>"
  have s: "start env a p = epoch_loop env a (arg_start_epoch a # [arg_start_epoch a + 1..arg_num_epoch a - 1]) ?p0"
    using assms(1,2) by (simp add: start_def u)
  show ?thesis unfolding s
    using epoch_loop_first[OF assms(3), of env "arg_start_epoch a" _ ?p0] by simp
qed


section \<open>Resuming from a checkpoint\<close>

lemma init_checkpoint:
  assumes "arg_checkpoint a = Some path"
    and "torch_load_checkpoint env path = Inr ck"
    and "init env a = Inr p"
  shows "optimizer p = optimizer_states ck" "lr_scheduler p = Some (lr_scheduler_states ck)"
  using assms
  by (auto simp: init_def load_optimizer_def load_lr_scheduler_def Let_def
      split: sum.splits if_splits option.splits)

lemma init_ignores_checkpoint_epoch:
  assumes "init env a = Inr p"
  shows "init (env\<lparr>torch_load_checkpoint :=
            (\<lambda>q. map_sum id (\<lambda>c. c\<lparr>ck_epoch := e\<rparr>) (torch_load_checkpoint env q))\<rparr>) a = Inr p"
proof -
  let ?env = "env\<lparr>torch_load_checkpoint :=
            (\<lambda>q. map_sum id (\<lambda>c. c\<lparr>ck_epoch := e\<rparr>) (torch_load_checkpoint env q))\<rparr>"
  have f: "parse_int ?env = parse_int env" "torch_load_weights ?env = torch_load_weights env"
    "new_model ?env = new_model env" "new_optimizer ?env = new_optimizer env"
    "new_scheduler ?env = new_scheduler env"
    by simp_all
  have m: "load_model ?env a = load_model env a" unfolding load_model_def f by (rule refl)
  have o: "load_optimizer ?env a = load_optimizer env a"
    unfolding load_optimizer_def f by (simp split: option.splits sum.splits)
  have l: "\<And>opt. load_lr_scheduler ?env a opt = load_lr_scheduler env a opt"
    unfolding load_lr_scheduler_def f by (simp split: option.splits sum.splits)
  show ?thesis using assms unfolding init_def m o l .
qed

lemma resume_init:
  "init resume_env resume_arg = Inr (toy_processor\<lparr>optimizer := 41, lr_scheduler := Some 17\<rparr>)"
  by (simp add: init_def load_model_def load_optimizer_def load_lr_scheduler_def
      get_lst_name_test_tta_def str_nat_0 resume_env_def resume_arg_def es_env_def toy_env_def
      one_epoch_arg_def toy_arg_def parser_defaults_def toy_processor_def)

lemma resume_run:
  "(case start resume_env resume_arg (toy_processor\<lparr>optimizer := 41, lr_scheduler := Some 17\<rparr>) of
      Returned s \<Rightarrow> epochs_run (events s) = [1, 2]
    | Raised e s \<Rightarrow> False)"
  by (simp add: run_defs resume_env_def resume_arg_def es_env_def toy_env_def one_epoch_arg_def
      toy_arg_def parser_defaults_def toy_processor_def epochs_run_def List.map_filter_simps)

text \<open>
  C1 (as amended): when a checkpoint path is supplied and the processor is built,
  its optimizer state and its scheduler state are the checkpoint's, verbatim. The
  epoch stored in the checkpoint is not read (any other stored epoch gives the same
  processor): the first epoch of the run is the configured \<^verbatim>\<open>start_epoch\<close>.
\<close>

theorem resume_restores_states:
  assumes "arg_checkpoint a = Some path"
    and "torch_load_checkpoint env path = Inr ck"
    and "init env a = Inr p"
    and "arg_phase a = ''train''"
    and "arg_batch_size a \<noteq> 0"
    and "arg_save_interval a \<noteq> 0"
    and "arg_start_epoch a < arg_num_epoch a"
  shows "optimizer p = optimizer_states ck
     \<and> lr_scheduler p = Some (lr_scheduler_states ck)
     \<and> init (env\<lparr>torch_load_checkpoint :=
            (\<lambda>q. map_sum id (\<lambda>c. c\<lparr>ck_epoch := e\<rparr>) (torch_load_checkpoint env q))\<rparr>) a = Inr p
     \<and> (\<exists>ev. events (state_of (start env a p))
           = events p @ EpochScalar (arg_start_epoch a + 1)
               (real_of_int (arg_start_epoch a * len_train_loader env) / real_of_int (arg_batch_size a)) # ev)"
  using init_checkpoint[OF assms(1,2,3)] init_ignores_checkpoint_epoch[OF assms(3), of e]
    start_first[OF assms(4,5,6,7), of env p]
  by simp

theorem resume_restores_states_witness:
  "arg_checkpoint resume_arg = Some ''checkpoints/checkpoint-1-fwbz2-1.pt''
   \<and> torch_load_checkpoint resume_env ''checkpoints/checkpoint-1-fwbz2-1.pt''
       = Inr \<lparr>ck_epoch = 1, optimizer_states = 41, lr_scheduler_states = 17\<rparr>
   \<and> init resume_env resume_arg = Inr (toy_processor\<lparr>optimizer := 41, lr_scheduler := Some 17\<rparr>)
   \<and> arg_start_epoch resume_arg < arg_num_epoch resume_arg
   \<and> optimizer (toy_processor\<lparr>optimizer := 41, lr_scheduler := Some 17\<rparr>) = (41::nat)
   \<and> lr_scheduler (toy_processor\<lparr>optimizer := 41, lr_scheduler := Some 17\<rparr>) = Some (17::nat)
   \<and> (\<exists>ev. events (state_of (start resume_env resume_arg
               (toy_processor\<lparr>optimizer := 41, lr_scheduler := Some 17\<rparr>)))
         = EpochScalar 1 0 # ev)"
proof -
  have v: "arg_checkpoint resume_arg = Some ''checkpoints/checkpoint-1-fwbz2-1.pt''"
    "arg_phase resume_arg = ''train''" "arg_batch_size resume_arg = 2"
    "arg_save_interval resume_arg = 1" "arg_start_epoch resume_arg = 0" "arg_num_epoch resume_arg = 2"
    by (simp_all add: resume_arg_def one_epoch_arg_def toy_arg_def parser_defaults_def)
  have c: "torch_load_checkpoint resume_env ''checkpoints/checkpoint-1-fwbz2-1.pt''
       = Inr \<lparr>ck_epoch = 1, optimizer_states = 41, lr_scheduler_states = 17\<rparr>"
    by (simp add: resume_env_def)
  have h4: "arg_phase resume_arg = ''train''" by (simp add: v)
  have h5: "arg_batch_size resume_arg \<noteq> 0" by (simp add: v)
  have h6: "arg_save_interval resume_arg \<noteq> 0" by (simp add: v)
  have h7: "arg_start_epoch resume_arg < arg_num_epoch resume_arg" by (simp add: v)
  show ?thesis
    using v(1) c resume_init h7 resume_restores_states[OF v(1) c resume_init h4 h5 h6 h7]
    by (simp add: v toy_processor_def)
qed

text \<open>
  C1 as stated fails: resuming from a checkpoint saved after epoch 1, with
  \<^verbatim>\<open>start_epoch\<close> at its default, runs epoch 1 again.
\<close>

theorem resume_epoch_counterexample:
  "arg_start_epoch resume_arg = 0
   \<and> map_sum id ck_epoch (torch_load_checkpoint resume_env ''checkpoints/checkpoint-1-fwbz2-1.pt'')
       = Inr 1
   \<and> init resume_env resume_arg = Inr (toy_processor\<lparr>optimizer := 41, lr_scheduler := Some 17\<rparr>)
   \<and> epochs_run (events (state_of (start resume_env resume_arg
         (toy_processor\<lparr>optimizer := 41, lr_scheduler := Some 17\<rparr>)))) = [1, 2]"
proof -
  have "epochs_run (events (state_of (start resume_env resume_arg
         (toy_processor\<lparr>optimizer := 41, lr_scheduler := Some 17\<rparr>)))) = [1, 2]"
    using resume_run
    by (cases "start resume_env resume_arg (toy_processor\<lparr>optimizer := 41, lr_scheduler := Some 17\<rparr>)")
      simp_all
  then show ?thesis
    using resume_init
    by (simp add: resume_env_def resume_arg_def one_epoch_arg_def toy_arg_def parser_defaults_def)
qed

section \<open>Unsupported optimizer and scheduler names\<close>

lemma init_bad_optimizer:
  assumes "arg_optimizer a \<noteq> ''SGD''" "arg_optimizer a \<noteq> ''Adam''"
  shows "\<exists>e. init env a = Inl e" "load_model env a = Inr m \<Longrightarrow> init env a = Inl ValueError"
  using assms by (auto simp: init_def load_optimizer_def split: sum.splits)

lemma main_bad_optimizer:
  assumes "arg_optimizer a \<noteq> ''SGD''" "arg_optimizer a \<noteq> ''Adam''"
  shows "\<exists>e. main env a = Inl e"
proof (cases "main_tta a")
  case (Inl e)
  then show ?thesis by (simp add: main_def)
next
  case (Inr a')
  then have "arg_optimizer a' = arg_optimizer a"
    by (auto simp: main_tta_def split: if_splits list.splits)
  then obtain e where "init env a' = Inl e" using init_bad_optimizer(1)[of a' env] assms by auto
  then show ?thesis using Inr by (simp add: main_def)
qed

lemma init_bad_scheduler:
  assumes "arg_lr_scheduler b \<noteq> ''MultiStepLR''"
    and "arg_lr_scheduler b \<noteq> ''ReduceLROnPlateau''"
    and "arg_lr_scheduler b \<noteq> ''CosineAnnealingLR''"
    and "arg_optimizer b = ''SGD'' \<or> arg_optimizer b = ''Adam''"
    and "arg_checkpoint b = None"
    and "load_model env b = Inr m"
  shows "\<exists>p. init env b = Inr p \<and> lr_scheduler p = None"
  using assms by (auto simp: init_def load_optimizer_def load_lr_scheduler_def)

text \<open>
  What the constructor does with names it does not know: an optimizer name other
  than SGD and Adam makes it raise (ValueError when the model was loaded), so
  \<^verbatim>\<open>main\<close> ends before any epoch; a scheduler name other than the three
  known ones, without a checkpoint path, gives a processor whose scheduler is
  \<^verbatim>\<open>None\<close>.
\<close>

lemma unknown_names_at_init:
  assumes "arg_optimizer a \<noteq> ''SGD''"
    and "arg_optimizer a \<noteq> ''Adam''"
    and "arg_lr_scheduler b \<noteq> ''MultiStepLR''"
    and "arg_lr_scheduler b \<noteq> ''ReduceLROnPlateau''"
    and "arg_lr_scheduler b \<noteq> ''CosineAnnealingLR''"
    and "arg_optimizer b = ''SGD'' \<or> arg_optimizer b = ''Adam''"
    and "arg_checkpoint b = None"
    and "load_model env b = Inr m"
  shows "(\<exists>e. init env a = Inl e)
     \<and> (\<exists>e. main env a = Inl e)
     \<and> (load_model env a = Inr m' \<longrightarrow> init env a = Inl ValueError)
     \<and> (\<exists>p. init env b = Inr p \<and> lr_scheduler p = None
            \<and> train_scheduler env b ep p = p \<and> eval_scheduler env b loss p = p)"
proof -
  obtain p where p: "init env b = Inr p" "lr_scheduler p = None"
    using init_bad_scheduler[OF assms(3-8)] by blast
  have "train_scheduler env b ep p = p" "eval_scheduler env b loss p = p"
    using p(2) by (simp_all add: train_scheduler_def eval_scheduler_def)
  then show ?thesis
    using p init_bad_optimizer(1)[OF assms(1,2), of env] init_bad_optimizer(2)[OF assms(1,2), of env m']
      main_bad_optimizer[OF assms(1,2), of env]
    by blast
qed

lemma unknown_names_at_init_example:
  "arg_optimizer bad_optimizer_arg = ''RMSprop''
   \<and> arg_lr_scheduler bad_scheduler_arg = ''StepLR''
   \<and> arg_optimizer bad_scheduler_arg = ''SGD''
   \<and> arg_checkpoint bad_scheduler_arg = None
   \<and> load_model es_env bad_scheduler_arg = Inr (new_model es_env, 0, [])
   \<and> load_model es_env bad_optimizer_arg = Inr (new_model es_env, 0, [])
   \<and> init es_env bad_optimizer_arg = Inl ValueError
   \<and> (\<exists>e. main es_env bad_optimizer_arg = Inl e)
   \<and> (\<exists>p. init es_env bad_scheduler_arg = Inr p \<and> lr_scheduler p = None
          \<and> train_scheduler es_env bad_scheduler_arg 0 p = p
          \<and> eval_scheduler es_env bad_scheduler_arg 1 p = p)"
proof -
  have v: "arg_optimizer bad_optimizer_arg = ''RMSprop''"
    "arg_lr_scheduler bad_scheduler_arg = ''StepLR''" "arg_optimizer bad_scheduler_arg = ''SGD''"
    "arg_checkpoint bad_scheduler_arg = None"
    by (simp_all add: bad_optimizer_arg_def bad_scheduler_arg_def one_epoch_arg_def toy_arg_def
        parser_defaults_def)
  have h1: "arg_optimizer bad_optimizer_arg \<noteq> ''SGD''" by (simp add: v)
  have h2: "arg_optimizer bad_optimizer_arg \<noteq> ''Adam''" by (simp add: v)
  have h3: "arg_lr_scheduler bad_scheduler_arg \<noteq> ''MultiStepLR''" by (simp add: v)
  have h4: "arg_lr_scheduler bad_scheduler_arg \<noteq> ''ReduceLROnPlateau''" by (simp add: v)
  have h5: "arg_lr_scheduler bad_scheduler_arg \<noteq> ''CosineAnnealingLR''" by (simp add: v)
  have h6: "arg_optimizer bad_scheduler_arg = ''SGD'' \<or> arg_optimizer bad_scheduler_arg = ''Adam''"
    by (simp add: v)
  have h8: "load_model es_env bad_scheduler_arg = Inr (new_model es_env, 0, [])"
    by (simp add: load_model_def bad_scheduler_arg_def one_epoch_arg_def toy_arg_def
        parser_defaults_def)
  have m: "load_model es_env bad_optimizer_arg = Inr (new_model es_env, 0, [])"
    by (simp add: load_model_def bad_optimizer_arg_def one_epoch_arg_def toy_arg_def
        parser_defaults_def)
  show ?thesis
    using v h8 m
      unknown_names_at_init[OF h1 h2 h3 h4 h5 h6 v(4) h8,
        of "(new_model es_env, 0, [])" 0 1]
    by simp
qed

text \<open>
  A processor without a scheduler cannot save a checkpoint: an epoch that saves
  raises, after the weights were written when its training went through, and a run
  with a save interval of 1 does not return.
\<close>

lemma train_save_none_scheduler:
  assumes "lr_scheduler q = None"
  shows "train_save a ep True q =
     Raised AttributeError (emit [SaveStates ''weights'' (''weights-'' @ str_int (ep + 1) @ ''.pt'')] q)"
  using assms
  by (simp add: train_save_def save_weights_def save_checkpoint_def save_states_def emit_def)

lemma train_none_scheduler_raises:
  assumes "lr_scheduler p = None"
  shows "raised (train env a ep True p) \<noteq> None"
proof (cases "train env a ep True p")
  case (Raised e p1)
  then show ?thesis by simp
next
  case (Returned p1)
  let ?p0 = "emit [EpochScalar (ep + 1) (global_step p)] p"
  from Returned obtain q n where
    l: "train_loop env a (train_loader env ep) (?p0, 0) = Returned (q, n)"
    and s: "train_save a ep True (train_scheduler env a ep q) = Returned p1"
    by (cases "train_loop env a (train_loader env ep) (?p0, 0)")
      (auto simp: train_def split: if_splits)
  have "lr_scheduler q = None" using train_loop_trace[OF l] assms by (auto simp: emit_def)
  then have "lr_scheduler (train_scheduler env a ep q) = None" by (simp add: train_scheduler_def)
  then show ?thesis using s train_save_none_scheduler by fastforce
qed

lemma start_none_scheduler_raises:
  assumes "lr_scheduler p = None" "arg_phase a = ''train''"
    "arg_start_epoch a < arg_num_epoch a" "arg_save_interval a = 1"
  shows "raised (start env a p) \<noteq> None"
proof -
  have u: "[arg_start_epoch a..arg_num_epoch a - 1]
      = arg_start_epoch a # [arg_start_epoch a + 1..arg_num_epoch a - 1]"
    using assms(3) by (simp add: upto_rec1)
  let ?p0 = "p\<lparr>global_step := real_of_int (arg_start_epoch a * len_train_loader env)
      / real_of_int (arg_batch_size a)\<rparr>"
  have n: "lr_scheduler ?p0 = None" using assms(1) by simp
  obtain e p1 where "train env a (arg_start_epoch a) True ?p0 = Raised e p1"
    using train_none_scheduler_raises[OF n, of env a "arg_start_epoch a"]
    by (cases "train env a (arg_start_epoch a) True ?p0") auto
  then show ?thesis using assms(2,4) by (simp add: start_def u)
qed

text \<open>
  C9: the code does not do what the claim says for the scheduler. With the
  unsupported name StepLR and no checkpoint path, \<^verbatim>\<open>load_lr_scheduler\<close> raises
  nothing where its sibling \<^verbatim>\<open>load_optimizer\<close> raises ValueError: the
  processor is built without a scheduler, \<^verbatim>\<open>main\<close> trains the first epoch and
  saves its weights, and the run stops only then, with AttributeError from
  \<^verbatim>\<open>save_checkpoint\<close>, instead of aborting during initialisation.
\<close>

theorem unsupported_scheduler_is_not_rejected:
  "init es_env bad_scheduler_arg = Inr (toy_processor\<lparr>lr_scheduler := None\<rparr>)
   \<and> main es_env bad_scheduler_arg =
       Inr (Raised AttributeError (toy_processor
         \<lparr>optimizer := 1, lr_scheduler := None, global_step := 1,
          events := [EpochScalar 1 0, ZeroGrad, Forward [1, 2], Backward 1,
            MetricScalar ''train'' ''acc'' 1, MetricScalar ''train'' ''loss'' 1,
            MetricScalar ''train'' ''loss_l1'' 1, OptimizerStep, MetricScalar ''train'' ''lr'' 1,
            SaveStates ''weights'' ''weights-1.pt'']\<rparr>))"
  by (simp add: main_def main_tta_def init_def load_model_def load_optimizer_def
      load_lr_scheduler_def get_lst_name_test_tta_def str_nat_0 run_defs es_env_def
      bad_scheduler_arg_def one_epoch_arg_def toy_env_def toy_arg_def parser_defaults_def
      toy_processor_def str_int_def str_nat.simps digit_char_def)

section \<open>The global step at the start of a run\<close>

lemma init_global_step: "init env a = Inr p \<Longrightarrow> global_step p = 0"
  by (auto simp: init_def split: sum.splits)

lemma start_ignores_global_step:
  "arg_phase a = ''train'' \<Longrightarrow> arg_batch_size a \<noteq> 0 \<Longrightarrow>
     start env a (p\<lparr>global_step := g\<rparr>) = start env a p"
  by (simp add: start_def)

lemma train_batch_returned_step:
  assumes "train_batch env a data (q, n) = Returned (q', n')"
  shows "global_step q' = global_step q + 1"
  using assms by (auto simp: train_batch_def Let_def emit_def split: if_splits)

lemma train_loop_returned_step:
  assumes "train_loop env a loader (q, n) = Returned (q', n')"
  shows "global_step q' = global_step q + real (length loader)"
  using assms
proof (induction loader arbitrary: q n)
  case Nil
  then show ?case by simp
next
  case (Cons data rest)
  from Cons.prems obtain q1 n1 where
    b: "train_batch env a data (q, n) = Returned (q1, n1)"
    and r: "train_loop env a rest (q1, n1) = Returned (q', n')"
    by (cases "train_batch env a data (q, n)") auto
  show ?case using train_batch_returned_step[OF b] Cons.IH[OF r] by simp
qed

lemma train_returned_step:
  assumes "train env a ep sm p = Returned p1"
  shows "global_step p1 = global_step p + real (length (train_loader env ep))"
proof -
  let ?p0 = "emit [EpochScalar (ep + 1) (global_step p)] p"
  from assms obtain q n where
    l: "train_loop env a (train_loader env ep) (?p0, 0) = Returned (q, n)"
    and s: "train_save a ep sm (train_scheduler env a ep q) = Returned p1"
    by (cases "train_loop env a (train_loader env ep) (?p0, 0)")
      (auto simp: train_def split: if_splits)
  have "global_step p1 = global_step (train_scheduler env a ep q)"
    using train_save_keeps(1)[of a ep sm "train_scheduler env a ep q"] s by simp
  then show ?thesis
    using train_loop_returned_step[OF l] by (simp add: train_scheduler_keeps emit_def)
qed

lemma fraction_below:
  assumes "0 < (n::int)" "1 < (b::int)"
  shows "real_of_int n / real_of_int b < real_of_int n"
proof -
  have "real_of_int n * 1 < real_of_int n * real_of_int b"
    using assms by (intro mult_strict_left_mono) simp_all
  then show ?thesis using assms by (simp add: divide_less_eq mult.commute)
qed

lemma fraction_not_int:
  assumes "b \<noteq> 0" "\<not> (b::int) dvd n"
  shows "real_of_int n / real_of_int b \<notin> \<int>"
proof
  assume "real_of_int n / real_of_int b \<in> \<int>"
  then obtain k :: int where "real_of_int n / real_of_int b = real_of_int k"
    by (auto elim: Ints_cases)
  then have "real_of_int n = real_of_int (k * b)" using assms(1) by (simp add: field_simps)
  then have "n = k * b" by (simp only: of_int_eq_iff)
  then show False using assms(2) by simp
qed


lemma late_load_model:
  "load_model late_env late_arg
     = Inr ([(''fc.weight'', Tensor [2] [5, 6]), (''fc.bias'', Tensor [1] [0])], 7, [])"
  by (simp add: load_model_def late_env_def late_arg_def es_env_def toy_env_def one_epoch_arg_def
      toy_arg_def parser_defaults_def split_last.simps ordered_dict_def strip_fc_weight
      restore_weights_def load_state_dict_def size_mismatch_def copy_matching_def Let_def)

lemma late_init:
  "init late_env late_arg = Inr late_processor"
  unfolding init_def late_load_model
  by (simp add: late_processor_def load_optimizer_def load_lr_scheduler_def get_lst_name_test_tta_def str_nat_0
      late_env_def late_arg_def es_env_def toy_env_def one_epoch_arg_def toy_arg_def
      parser_defaults_def toy_processor_def)

lemma late_train:
  "train late_env late_arg 1 True (late_processor\<lparr>global_step := 3 / 2\<rparr>) =
     Returned (late_processor
       \<lparr>optimizer := 3, lr_scheduler := Some 1, global_step := 9 / 2,
        events := [EpochScalar 2 (3 / 2),
          ZeroGrad, Forward [1, 2], Backward 1, MetricScalar ''train'' ''acc'' (5 / 2),
          MetricScalar ''train'' ''loss'' (5 / 2), MetricScalar ''train'' ''loss_l1'' (5 / 2),
          OptimizerStep, MetricScalar ''train'' ''lr'' (5 / 2),
          ZeroGrad, Forward [3, 4], Backward 1, MetricScalar ''train'' ''acc'' (7 / 2),
          MetricScalar ''train'' ''loss'' (7 / 2), MetricScalar ''train'' ''loss_l1'' (7 / 2),
          OptimizerStep, MetricScalar ''train'' ''lr'' (7 / 2),
          ZeroGrad, Forward [5, 6], Backward 1, MetricScalar ''train'' ''acc'' (9 / 2),
          MetricScalar ''train'' ''loss'' (9 / 2), MetricScalar ''train'' ''loss_l1'' (9 / 2),
          OptimizerStep, MetricScalar ''train'' ''lr'' (9 / 2),
          SchedulerStep, SaveStates ''weights'' ''weights-2.pt'',
          SaveStates ''checkpoints'' ''checkpoint-2-fwbz2-4.pt'']\<rparr>)"
  by (simp add: run_defs late_env_def late_arg_def es_env_def toy_env_def one_epoch_arg_def
      toy_arg_def parser_defaults_def toy_processor_def late_processor_def str_int_def
      str_nat.simps digit_char_def py_int_def)

text \<open>
  C10: in the train phase (batch size not zero, save interval not zero, at least one
  epoch to run) the constructor leaves the global step at 0 whatever the weights
  file name says, and \<^verbatim>\<open>start\<close> replaces whatever the global step is by
  \<open>g0 = start_epoch * len(loader) / batch_size\<close> in real division: it is the step of
  the first epoch scalar. With a positive start epoch, a non-empty loader and a
  batch size above 1 it is below the number of macro-batches of the earlier epochs,
  and it is not an integer when the batch size does not divide that number. After an
  epoch that saves, the global step is the one before plus the number of
  macro-batches, and the checkpoint file name carries its truncation to an integer.
\<close>

theorem start_overwrites_global_step:
  assumes "arg_phase a = ''train''"
    and "arg_batch_size a \<noteq> 0"
    and "arg_save_interval a \<noteq> 0"
    and "arg_start_epoch a < arg_num_epoch a"
    and "g0 = real_of_int (arg_start_epoch a * len_train_loader env) / real_of_int (arg_batch_size a)"
  shows "(init env a = Inr p0 \<longrightarrow> global_step p0 = 0)
     \<and> start env a (p\<lparr>global_step := g\<rparr>) = start env a p
     \<and> (\<exists>ev. events (state_of (start env a p)) = events p @ EpochScalar (arg_start_epoch a + 1) g0 # ev)
     \<and> (0 < arg_start_epoch a \<and> 0 < len_train_loader env \<and> 1 < arg_batch_size a
           \<longrightarrow> g0 < real_of_int (arg_start_epoch a * len_train_loader env))
     \<and> (\<not> arg_batch_size a dvd arg_start_epoch a * len_train_loader env \<longrightarrow> g0 \<notin> \<int>)
     \<and> (train env a ep True q = Returned q1 \<longrightarrow>
           global_step q1 = global_step q + real (length (train_loader env ep))
           \<and> SaveStates ''checkpoints''
                (''checkpoint-'' @ str_int (ep + 1) @ ''-fwbz'' @ str_int (arg_forward_batch_size a)
                   @ ''-'' @ str_int (py_int (global_step q1)) @ ''.pt'') \<in> set (events q1))"
proof -
  have a: "init env a = Inr p0 \<longrightarrow> global_step p0 = 0" using init_global_step by blast
  have b: "start env a (p\<lparr>global_step := g\<rparr>) = start env a p"
    by (rule start_ignores_global_step[OF assms(1,2)])
  have c: "\<exists>ev. events (state_of (start env a p)) = events p @ EpochScalar (arg_start_epoch a + 1) g0 # ev"
    unfolding assms(5) by (rule start_first[OF assms(1,2,3,4)])
  have d: "0 < arg_start_epoch a \<and> 0 < len_train_loader env \<and> 1 < arg_batch_size a
           \<longrightarrow> g0 < real_of_int (arg_start_epoch a * len_train_loader env)"
    unfolding assms(5) using fraction_below[of "arg_start_epoch a * len_train_loader env" "arg_batch_size a"]
    by simp
  have e: "\<not> arg_batch_size a dvd arg_start_epoch a * len_train_loader env \<longrightarrow> g0 \<notin> \<int>"
    unfolding assms(5) using fraction_not_int[OF assms(2)] by blast
  have f: "train env a ep True q = Returned q1 \<longrightarrow>
           global_step q1 = global_step q + real (length (train_loader env ep))
           \<and> SaveStates ''checkpoints''
                (''checkpoint-'' @ str_int (ep + 1) @ ''-fwbz'' @ str_int (arg_forward_batch_size a)
                   @ ''-'' @ str_int (py_int (global_step q1)) @ ''.pt'') \<in> set (events q1)"
  proof
    assume r: "train env a ep True q = Returned q1"
    from train_trace[OF r] obtain pre where
      "events q1 = events q @ pre
             @ [SaveStates ''weights'' (''weights-'' @ str_int (ep + 1) @ ''.pt''),
                SaveStates ''checkpoints'' (checkpoint_name a (ep + 1) (global_step q1))]"
      by blast
    then have "SaveStates ''checkpoints'' (checkpoint_name a (ep + 1) (global_step q1)) \<in> set (events q1)"
      by simp
    then show "global_step q1 = global_step q + real (length (train_loader env ep))
           \<and> SaveStates ''checkpoints''
                (''checkpoint-'' @ str_int (ep + 1) @ ''-fwbz'' @ str_int (arg_forward_batch_size a)
                   @ ''-'' @ str_int (py_int (global_step q1)) @ ''.pt'') \<in> set (events q1)"
      using train_returned_step[OF r] by (simp add: checkpoint_name_def)
  qed
  show ?thesis using a b c d e f by blast
qed

theorem start_overwrites_global_step_witness:
  "arg_phase late_arg = ''train''
   \<and> arg_batch_size late_arg = 2
   \<and> arg_start_epoch late_arg = 1
   \<and> len_train_loader late_env = 3
   \<and> arg_weights late_arg = Some ''runs/weights-7.pt''
   \<and> load_model late_env late_arg
       = Inr ([(''fc.weight'', Tensor [2] [5, 6]), (''fc.bias'', Tensor [1] [0])], 7, [])
   \<and> init late_env late_arg = Inr late_processor
   \<and> global_step late_processor = 0
   \<and> start late_env late_arg (late_processor\<lparr>global_step := 7\<rparr>) = start late_env late_arg late_processor
   \<and> (\<exists>ev. events (state_of (start late_env late_arg late_processor)) = EpochScalar 2 (3 / 2) # ev)
   \<and> (3 / 2 :: real) < real_of_int (1 * 3)
   \<and> (3 / 2 :: real) \<notin> \<int>
   \<and> global_step (state_of (train late_env late_arg 1 True (late_processor\<lparr>global_step := 3 / 2\<rparr>)))
       = 9 / 2
   \<and> SaveStates ''checkpoints'' ''checkpoint-2-fwbz2-4.pt''
       \<in> set (events (state_of (train late_env late_arg 1 True (late_processor\<lparr>global_step := 3 / 2\<rparr>))))"
proof -
  have v: "arg_phase late_arg = ''train''" "arg_batch_size late_arg = 2" "arg_start_epoch late_arg = 1"
    "arg_num_epoch late_arg = 2" "arg_save_interval late_arg = 1" "arg_forward_batch_size late_arg = 2"
    "arg_weights late_arg = Some ''runs/weights-7.pt''"
    by (simp_all add: late_arg_def one_epoch_arg_def toy_arg_def parser_defaults_def)
  have e: "len_train_loader late_env = 3" by (simp add: late_env_def)
  have h2: "arg_batch_size late_arg \<noteq> 0" by (simp add: v)
  have h3: "arg_save_interval late_arg \<noteq> 0" by (simp add: v)
  have h4: "arg_start_epoch late_arg < arg_num_epoch late_arg" by (simp add: v)
  have h5: "3 / 2 = real_of_int (arg_start_epoch late_arg * len_train_loader late_env)
      / real_of_int (arg_batch_size late_arg)"
    by (simp add: v e)
  have q: "events late_processor = []" "global_step late_processor = 0"
    by (simp_all add: late_processor_def toy_processor_def)
  note t = start_overwrites_global_step[OF v(1) h2 h3 h4 h5, where ?p0.0 = late_processor
      and p = late_processor and g = 7 and ep = 1
      and q = "late_processor\<lparr>global_step := 3 / 2\<rparr>"
      and ?q1.0 = "state_of (train late_env late_arg 1 True (late_processor\<lparr>global_step := 3 / 2\<rparr>))"]
  show ?thesis
    using v e late_load_model late_init t
    by (simp add: q late_train)
qed

end
